theory Spec2Isabelle
  imports Main "HOL-Library.AList"
begin

section \<open>The Go runtime as far as websocket.go uses it\<close>

text \<open>
  Errors are values. \<open>New\<close> is \<^verbatim>\<open>errors.New\<close>, \<open>Annotate\<close> is
  \<^verbatim>\<open>errors.Annotate(err, message)\<close> of juju/errors. The errors of the transport and of
  \<^verbatim>\<open>json.Unmarshal\<close> are opaque error values of the same type.
\<close>

datatype error = New string | Annotate error string

text \<open>
  The seven notification structs differ in their data fields only; the handler reads the
  field \<^verbatim>\<open>Symbol\<close> and passes the rest on untouched.
\<close>

record WSNotification =
  Symbol :: string
  Body :: string

datatype item = Notification WSNotification | Failure error

text \<open>
  An unbuffered channel (\<^verbatim>\<open>make(chan T)\<close>): whether it was closed, how many consumers
  are parked in a receive on it, and the values handed over so far, oldest first.
\<close>

record channel =
  closed :: bool
  receivers :: nat
  delivered :: "item list"

text \<open>
  A channel reference is \<open>Some a\<close>, the address \<open>a\<close> of a cell in the heap, or \<open>None\<close>,
  Go's \<^verbatim>\<open>nil\<close>. A Go map from symbols to channels is an association list; reading an
  absent key gives the zero value \<^verbatim>\<open>nil\<close>, that is \<open>map_of m k = None\<close>. The order of
  the list stands for the order in which \<^verbatim>\<open>range\<close> happens to visit the map.
\<close>

type_synonym chan = "nat option"
type_synonym feedmap = "(string \<times> nat) list"

datatype request =
    WSSubscriptionRequest string
  | WSCandlesSubscriptionRequest string string

text \<open>
  What \<^verbatim>\<open>conn.Call(ctx, op, request, &success)\<close> comes back with: an error, or the decoded
  boolean acknowledgment.
\<close>

datatype call_result = CallError error | CallResult bool

text \<open>
  The transport \<^verbatim>\<open>*jsonrpc2.Conn\<close> is an external collaborator: \<open>respond\<close> is what the
  server side answers to each correlated call.
\<close>

record Conn =
  respond :: "string \<Rightarrow> request \<Rightarrow> call_result"
  conn_closed :: bool

datatype event =
    EvCall string request
  | EvConnClose
  | EvMake nat
  | EvClose nat
  | EvSend nat item

text \<open>
  How a call ends: it returns a value, it panics, or its goroutine is parked in a channel
  operation: \<open>Parked None\<close> on a nil channel (for ever, nobody can hold the other end),
  \<open>Parked (Some a)\<close> on the open channel \<open>a\<close> until a consumer receives from it.
\<close>

datatype 'a outcome = Return 'a | Panic string | Parked chan

section \<open>The data of websocket.go\<close>

record notificationChannels =
  TickerFeed :: feedmap
  OrderbookFeed_n :: feedmap
  TradesFeed_n :: feedmap
  CandlesFeed_n :: feedmap

record responseChannels =
  notifications :: notificationChannels
  OrderbookFeed :: feedmap
  TradesFeed :: feedmap
  CandlesFeed :: feedmap
  ErrorFeed :: chan

text \<open>
  \<open>conn\<close> and \<open>updates\<close> are the two fields of \<^verbatim>\<open>WSClient\<close>; \<open>heap\<close> holds the channel
  cells that \<^verbatim>\<open>make\<close> allocated (the address of a cell is its index) and \<open>events\<close> logs
  the effects on the transport and on channels in the order they happened.
\<close>

record world =
  conn :: "Conn option"
  updates :: responseChannels
  heap :: "channel list"
  events :: "event list"

text \<open>The seven feed maps, named after the field paths of the source.\<close>

datatype feed =
    Ticker
  | TradesUpdate
  | CandlesUpdate
  | OrderbookUpdate
  | OrderbookSnapshot
  | TradesSnapshot
  | CandlesSnapshot

fun get_feed :: "feed \<Rightarrow> responseChannels \<Rightarrow> feedmap" where
  "get_feed Ticker h = TickerFeed (notifications h)"
| "get_feed TradesUpdate h = TradesFeed_n (notifications h)"
| "get_feed CandlesUpdate h = CandlesFeed_n (notifications h)"
| "get_feed OrderbookUpdate h = OrderbookFeed_n (notifications h)"
| "get_feed OrderbookSnapshot h = OrderbookFeed h"
| "get_feed TradesSnapshot h = TradesFeed h"
| "get_feed CandlesSnapshot h = CandlesFeed h"

fun set_feed :: "feed \<Rightarrow> feedmap \<Rightarrow> responseChannels \<Rightarrow> responseChannels" where
  "set_feed Ticker m h = h\<lparr>notifications := (notifications h)\<lparr>TickerFeed := m\<rparr>\<rparr>"
| "set_feed TradesUpdate m h = h\<lparr>notifications := (notifications h)\<lparr>TradesFeed_n := m\<rparr>\<rparr>"
| "set_feed CandlesUpdate m h = h\<lparr>notifications := (notifications h)\<lparr>CandlesFeed_n := m\<rparr>\<rparr>"
| "set_feed OrderbookUpdate m h = h\<lparr>notifications := (notifications h)\<lparr>OrderbookFeed_n := m\<rparr>\<rparr>"
| "set_feed OrderbookSnapshot m h = h\<lparr>OrderbookFeed := m\<rparr>"
| "set_feed TradesSnapshot m h = h\<lparr>TradesFeed := m\<rparr>"
| "set_feed CandlesSnapshot m h = h\<lparr>CandlesFeed := m\<rparr>"

section \<open>Channel operations\<close>

fun bind :: "'a outcome \<times> world \<Rightarrow> ('a \<Rightarrow> world \<Rightarrow> 'b outcome \<times> world) \<Rightarrow> 'b outcome \<times> world" where
  "bind (Return x, s) f = f x s"
| "bind (Panic p, s) f = (Panic p, s)"
| "bind (Parked c, s) f = (Parked c, s)"

definition new_channel :: channel where
  "new_channel = \<lparr>closed = False, receivers = 0, delivered = []\<rparr>"

text \<open>\<^verbatim>\<open>make(chan T)\<close>: a fresh open cell at the end of the heap.\<close>

definition make_chan :: "world \<Rightarrow> nat \<times> world" where
  "make_chan s =
     (length (heap s),
      s\<lparr>heap := heap s @ [new_channel], events := events s @ [EvMake (length (heap s))]\<rparr>)"

text \<open>
  \<^verbatim>\<open>close(ch)\<close> panics on a nil channel and on a closed one. An address outside the heap
  is not a value a Go program can hold; the model faults there.
\<close>

definition close_chan :: "chan \<Rightarrow> world \<Rightarrow> unit outcome \<times> world" where
  "close_chan c s =
     (case c of
        None \<Rightarrow> (Panic ''close of nil channel'', s)
      | Some a \<Rightarrow>
          if length (heap s) \<le> a then (Panic ''no such channel'', s)
          else if closed (heap s ! a) then (Panic ''close of closed channel'', s)
          else (Return (),
                s\<lparr>heap := (heap s)[a := (heap s ! a)\<lparr>closed := True\<rparr>],
                  events := events s @ [EvClose a]\<rparr>))"

text \<open>
  \<^verbatim>\<open>ch <- v\<close> on an unbuffered channel: a nil channel parks the sender for ever, a closed
  one panics, an open one hands the value to a parked consumer or parks the sender until
  one arrives.
\<close>

definition send_chan :: "chan \<Rightarrow> item \<Rightarrow> world \<Rightarrow> unit outcome \<times> world" where
  "send_chan c v s =
     (case c of
        None \<Rightarrow> (Parked None, s)
      | Some a \<Rightarrow>
          if length (heap s) \<le> a then (Panic ''no such channel'', s)
          else if closed (heap s ! a) then (Panic ''send on closed channel'', s)
          else if receivers (heap s ! a) = 0 then (Parked (Some a), s)
          else (Return (),
                s\<lparr>heap := (heap s)[a := (heap s ! a)
                             \<lparr>receivers := receivers (heap s ! a) - 1,
                              delivered := delivered (heap s ! a) @ [v]\<rparr>],
                  events := events s @ [EvSend a v]\<rparr>))"

text \<open>
  The consumer's side, \<^verbatim>\<open>v, ok := <-ch\<close>, when no sender is parked on the channel: a closed
  channel answers at once with \<^verbatim>\<open>ok = false\<close>, any other channel makes the consumer wait.
\<close>

datatype received = NoMoreValues | Waits

definition receive :: "chan \<Rightarrow> world \<Rightarrow> received" where
  "receive c s =
     (case c of
        None \<Rightarrow> Waits
      | Some a \<Rightarrow> if a < length (heap s) \<and> closed (heap s ! a) then NoMoreValues else Waits)"

section \<open>The transport\<close>

text \<open>
  \<^verbatim>\<open>c.conn.Call\<close>: on a nil \<^verbatim>\<open>*jsonrpc2.Conn\<close> the method reads the fields of its receiver,
  a nil pointer dereference; otherwise the call is made and what the connection answers
  comes back.
\<close>

definition Call :: "string \<Rightarrow> request \<Rightarrow> world \<Rightarrow> call_result outcome \<times> world" where
  "Call op rq s =
     (case conn s of
        None \<Rightarrow> (Panic ''invalid memory address or nil pointer dereference'', s)
      | Some cn \<Rightarrow> (Return (respond cn op rq), s\<lparr>events := events s @ [EvCall op rq]\<rparr>))"

text \<open>
  \<^verbatim>\<open>jsonrpc2.ErrClosed\<close>, the error of every call on a connection that was closed.
\<close>

definition ErrClosed :: error where
  "ErrClosed = New ''jsonrpc2: connection is closed''"

text \<open>
  \<^verbatim>\<open>c.conn.Close()\<close>: from then on the connection is closed and no call reaches the server
  any more: whatever is asked, the answer is \<open>ErrClosed\<close>.
\<close>

definition conn_Close :: "world \<Rightarrow> unit outcome \<times> world" where
  "conn_Close s =
     (case conn s of
        None \<Rightarrow> (Panic ''invalid memory address or nil pointer dereference'', s)
      | Some cn \<Rightarrow>
          (Return (),
           s\<lparr>conn := Some (cn\<lparr>respond := (\<lambda>op rq. CallError ErrClosed), conn_closed := True\<rparr>),
             events := events s @ [EvConnClose]\<rparr>))"

section \<open>Handle\<close>

record Request =
  Method :: string
  Params :: "string option"

text \<open>
  The body shared by the seven cases of the switch: decode the message into the struct of
  the feed, and send the error to \<^verbatim>\<open>ErrorFeed\<close> or the message to the channel found under
  its symbol. \<open>unmarshal\<close> is \<^verbatim>\<open>json.Unmarshal\<close> into the struct type of the given feed.
\<close>

definition decode_and_send ::
  "(feed \<Rightarrow> string \<Rightarrow> error + WSNotification) \<Rightarrow> feed \<Rightarrow> string \<Rightarrow> world \<Rightarrow> unit outcome \<times> world" where
  "decode_and_send unmarshal f message s =
     (case unmarshal f message of
        Inl err \<Rightarrow> send_chan (ErrorFeed (updates s)) (Failure err) s
      | Inr msg \<Rightarrow> send_chan (map_of (get_feed f (updates s)) (Symbol msg)) (Notification msg) s)"

definition Handle ::
  "(feed \<Rightarrow> string \<Rightarrow> error + WSNotification) \<Rightarrow> Request \<Rightarrow> world \<Rightarrow> unit outcome \<times> world" where
  "Handle unmarshal req s =
     (case Params req of
        None \<Rightarrow> (Return (), s)
      | Some message \<Rightarrow>
          if Method req = ''ticker'' then decode_and_send unmarshal Ticker message s
          else if Method req = ''snapshotOrderbook'' then decode_and_send unmarshal OrderbookSnapshot message s
          else if Method req = ''updateOrderbook'' then decode_and_send unmarshal OrderbookUpdate message s
          else if Method req = ''snapshotTrades'' then decode_and_send unmarshal TradesSnapshot message s
          else if Method req = ''updateTrades'' then decode_and_send unmarshal TradesUpdate message s
          else if Method req = ''snapshotCandles'' then decode_and_send unmarshal CandlesSnapshot message s
          else if Method req = ''updateCandles'' then decode_and_send unmarshal CandlesUpdate message s
          else (Return (), s))"

section \<open>NewWSClient and Close\<close>

text \<open>
  \<open>dial\<close> is the result of \<^verbatim>\<open>websocket.DefaultDialer.Dial\<close> wrapped into a connection.
  The process starts with an empty heap; the only channel made is the error feed.
\<close>

definition NewWSClient :: "error + Conn \<Rightarrow> error + world" where
  "NewWSClient dial =
     (case dial of
        Inl err \<Rightarrow> Inl err
      | Inr cn \<Rightarrow>
          Inr \<lparr>conn = Some cn,
               updates = \<lparr>notifications =
                            \<lparr>TickerFeed = [], OrderbookFeed_n = [], TradesFeed_n = [],
                             CandlesFeed_n = []\<rparr>,
                          OrderbookFeed = [], TradesFeed = [], CandlesFeed = [],
                          ErrorFeed = Some 0\<rparr>,
               heap = [new_channel],
               events = [EvMake 0]\<rparr>)"

text \<open>\<^verbatim>\<open>for _, channel := range m { close(channel) }\<close>\<close>

fun close_each :: "nat list \<Rightarrow> world \<Rightarrow> unit outcome \<times> world" where
  "close_each [] s = (Return (), s)"
| "close_each (a # as) s = bind (close_chan (Some a) s) (\<lambda>_. close_each as)"

definition close_feed :: "feed \<Rightarrow> world \<Rightarrow> unit outcome \<times> world" where
  "close_feed f s = close_each (map snd (get_feed f (updates s))) s"

definition reset_feeds :: "world \<Rightarrow> world" where
  "reset_feeds s =
     s\<lparr>updates :=
         set_feed OrderbookSnapshot []
           (set_feed TradesSnapshot []
             (set_feed CandlesSnapshot []
               (set_feed CandlesUpdate []
                 (set_feed OrderbookUpdate []
                   (set_feed TradesUpdate []
                     (set_feed Ticker [] (updates s)))))))\<rparr>"

definition remake_ErrorFeed :: "world \<Rightarrow> world" where
  "remake_ErrorFeed s =
     (case make_chan s of (a, s') \<Rightarrow> s'\<lparr>updates := (updates s')\<lparr>ErrorFeed := Some a\<rparr>\<rparr>)"

definition Close :: "world \<Rightarrow> unit outcome \<times> world" where
  "Close s =
     bind (conn_Close s) (\<lambda>_ s.
     bind (close_feed Ticker s) (\<lambda>_ s.
     bind (close_feed TradesUpdate s) (\<lambda>_ s.
     bind (close_feed CandlesUpdate s) (\<lambda>_ s.
     bind (close_feed OrderbookUpdate s) (\<lambda>_ s.
     bind (close_feed OrderbookSnapshot s) (\<lambda>_ s.
     bind (close_feed TradesSnapshot s) (\<lambda>_ s.
     bind (close_feed CandlesSnapshot s) (\<lambda>_ s.
     bind (close_chan (ErrorFeed (updates s)) s) (\<lambda>_ s.
       (Return (), remake_ErrorFeed (reset_feeds s)))))))))))"

section \<open>Subscribe and unsubscribe\<close>

definition subscriptionOp :: "string \<Rightarrow> string \<Rightarrow> world \<Rightarrow> error option outcome \<times> world" where
  "subscriptionOp op symbol s =
     (if conn s = None then (Return (Some (New ''Connection is unitialized'')), s)
      else bind (Call op (WSSubscriptionRequest symbol) s) (\<lambda>r s.
             case r of
               CallError err \<Rightarrow> (Return (Some err), s)
             | CallResult success \<Rightarrow>
                 if \<not> success then (Return (Some (New ''Subscribe not successful'')), s)
                 else (Return None, s)))"

definition candlesSubscriptionOp ::
  "string \<Rightarrow> string \<Rightarrow> string \<Rightarrow> world \<Rightarrow> error option outcome \<times> world" where
  "candlesSubscriptionOp op symbol period s =
     bind (Call op (WSCandlesSubscriptionRequest symbol period) s) (\<lambda>r s.
       case r of
         CallError err \<Rightarrow> (Return (Some err), s)
       | CallResult response \<Rightarrow> (Return None, s))"

text \<open>\<^verbatim>\<open>if m[symbol] == nil { m[symbol] = make(chan T) }\<close>\<close>

definition ensure_chan :: "feed \<Rightarrow> string \<Rightarrow> world \<Rightarrow> world" where
  "ensure_chan f symbol s =
     (if map_of (get_feed f (updates s)) symbol = None
      then (case make_chan s of (a, s') \<Rightarrow>
              s'\<lparr>updates := set_feed f (AList.update symbol a (get_feed f (updates s'))) (updates s')\<rparr>)
      else s)"

text \<open>\<^verbatim>\<open>close(m[symbol]); delete(m, symbol)\<close>\<close>

definition close_and_delete :: "feed \<Rightarrow> string \<Rightarrow> world \<Rightarrow> unit outcome \<times> world" where
  "close_and_delete f symbol s =
     bind (close_chan (map_of (get_feed f (updates s)) symbol) s) (\<lambda>_ s.
       (Return (), s\<lparr>updates := set_feed f (AList.delete symbol (get_feed f (updates s))) (updates s)\<rparr>))"

definition lookup :: "feed \<Rightarrow> string \<Rightarrow> world \<Rightarrow> chan" where
  "lookup f symbol s = map_of (get_feed f (updates s)) symbol"

definition SubscribeTicker :: "string \<Rightarrow> world \<Rightarrow> (error + chan) outcome \<times> world" where
  "SubscribeTicker symbol s =
     bind (subscriptionOp ''subscribeTicker'' symbol s) (\<lambda>err s.
       case err of
         Some e \<Rightarrow> (Return (Inl (Annotate e ''Hitbtc SubscribeTicker'')), s)
       | None \<Rightarrow>
           (case ensure_chan Ticker symbol s of s \<Rightarrow>
              (Return (Inr (lookup Ticker symbol s)), s)))"

definition UnsubscribeTicker :: "string \<Rightarrow> world \<Rightarrow> error option outcome \<times> world" where
  "UnsubscribeTicker symbol s =
     bind (subscriptionOp ''unsubscribeTicker'' symbol s) (\<lambda>err s.
       case err of
         Some e \<Rightarrow> (Return (Some (Annotate e ''Hitbtc UnsubscribeTicker'')), s)
       | None \<Rightarrow>
           bind (close_and_delete Ticker symbol s) (\<lambda>_ s. (Return None, s)))"

definition SubscribeTrades :: "string \<Rightarrow> world \<Rightarrow> (error + chan \<times> chan) outcome \<times> world" where
  "SubscribeTrades symbol s =
     bind (subscriptionOp ''subscribeTrades'' symbol s) (\<lambda>err s.
       case err of
         Some e \<Rightarrow> (Return (Inl (Annotate e ''Hitbtc SubscribeTrades'')), s)
       | None \<Rightarrow>
           (case ensure_chan TradesSnapshot symbol (ensure_chan TradesUpdate symbol s) of s \<Rightarrow>
              (Return (Inr (lookup TradesUpdate symbol s, lookup TradesSnapshot symbol s)), s)))"

definition UnsubscribeTrades :: "string \<Rightarrow> world \<Rightarrow> error option outcome \<times> world" where
  "UnsubscribeTrades symbol s =
     bind (subscriptionOp ''unsubscribeTrades'' symbol s) (\<lambda>err s.
       case err of
         Some e \<Rightarrow> (Return (Some (Annotate e ''Hitbtc UnsubscribeTrades'')), s)
       | None \<Rightarrow>
           bind (close_and_delete TradesUpdate symbol s) (\<lambda>_ s.
           bind (close_and_delete TradesSnapshot symbol s) (\<lambda>_ s. (Return None, s))))"

definition SubscribeOrderbook :: "string \<Rightarrow> world \<Rightarrow> (error + chan \<times> chan) outcome \<times> world" where
  "SubscribeOrderbook symbol s =
     bind (subscriptionOp ''subscribeOrderbook'' symbol s) (\<lambda>err s.
       case err of
         Some e \<Rightarrow> (Return (Inl (Annotate e ''Hitbtc SubscribeOrderbook'')), s)
       | None \<Rightarrow>
           (case ensure_chan OrderbookSnapshot symbol (ensure_chan OrderbookUpdate symbol s) of s \<Rightarrow>
              (Return (Inr (lookup OrderbookUpdate symbol s, lookup OrderbookSnapshot symbol s)), s)))"

definition UnsubscribeOrderbook :: "string \<Rightarrow> world \<Rightarrow> error option outcome \<times> world" where
  "UnsubscribeOrderbook symbol s =
     bind (subscriptionOp ''unsubscribeOrderbook'' symbol s) (\<lambda>err s.
       case err of
         Some e \<Rightarrow> (Return (Some (Annotate e ''Hitbtc UnsubscribeOrderbook'')), s)
       | None \<Rightarrow>
           bind (close_and_delete OrderbookUpdate symbol s) (\<lambda>_ s.
           bind (close_and_delete OrderbookSnapshot symbol s) (\<lambda>_ s. (Return None, s))))"

definition Interval30Minutes :: string where
  "Interval30Minutes = ''M30''"

definition Interval1Hour :: string where
  "Interval1Hour = ''H1''"

definition SubscribeCandles ::
  "string \<Rightarrow> string \<Rightarrow> world \<Rightarrow> (error + chan \<times> chan) outcome \<times> world" where
  "SubscribeCandles symbol timeframe s =
     bind (candlesSubscriptionOp ''subscribeCandles'' symbol timeframe s) (\<lambda>err s.
       case err of
         Some e \<Rightarrow> (Return (Inl (Annotate e ''Hitbtc SubscribeCandles'')), s)
       | None \<Rightarrow>
           (case ensure_chan CandlesSnapshot symbol (ensure_chan CandlesUpdate symbol s) of s \<Rightarrow>
              (Return (Inr (lookup CandlesUpdate symbol s, lookup CandlesSnapshot symbol s)), s)))"

definition UnsubscribeCandles :: "string \<Rightarrow> string \<Rightarrow> world \<Rightarrow> error option outcome \<times> world" where
  "UnsubscribeCandles symbol timeframe s =
     bind (candlesSubscriptionOp ''unsubscribeCandles'' symbol timeframe s) (\<lambda>err s.
       case err of
         Some e \<Rightarrow> (Return (Some (Annotate e ''Hitbtc UnsubscribeCandles'')), s)
       | None \<Rightarrow>
           bind (close_and_delete CandlesUpdate symbol s) (\<lambda>_ s.
           bind (close_and_delete CandlesSnapshot symbol s) (\<lambda>_ s. (Return None, s))))"

section \<open>Vocabulary of the properties\<close>

text \<open>The feed maps in the order in which \<^verbatim>\<open>Close\<close> ranges over them.\<close>

definition all_feeds :: "feed list" where
  "all_feeds =
     [Ticker, TradesUpdate, CandlesUpdate, OrderbookUpdate, OrderbookSnapshot, TradesSnapshot,
      CandlesSnapshot]"

text \<open>Every channel held by the registry, feed by feed.\<close>

definition registered :: "responseChannels \<Rightarrow> nat list" where
  "registered h = concat (map (\<lambda>f. map snd (get_feed f h)) all_feeds)"

text \<open>
  The states a client is in between two calls: each feed map has one entry per key, the
  error feed exists, no channel is held twice, and every channel held is allocated and
  open.
\<close>

definition wf :: "world \<Rightarrow> bool" where
  "wf s \<longleftrightarrow>
     list_all (\<lambda>f. distinct (map fst (get_feed f (updates s)))) all_feeds \<and>
     (case ErrorFeed (updates s) of
        None \<Rightarrow> False
      | Some e \<Rightarrow>
          distinct (registered (updates s) @ [e]) \<and>
          list_all (\<lambda>a. a < length (heap s) \<and> \<not> closed (heap s ! a))
            (registered (updates s) @ [e]))"

text \<open>The switch of \<^verbatim>\<open>Handle\<close> read as a table from method names to feeds.\<close>

definition feed_of_method :: "string \<Rightarrow> feed option" where
  "feed_of_method m =
     (if m = ''ticker'' then Some Ticker
      else if m = ''snapshotOrderbook'' then Some OrderbookSnapshot
      else if m = ''updateOrderbook'' then Some OrderbookUpdate
      else if m = ''snapshotTrades'' then Some TradesSnapshot
      else if m = ''updateTrades'' then Some TradesUpdate
      else if m = ''snapshotCandles'' then Some CandlesSnapshot
      else if m = ''updateCandles'' then Some CandlesUpdate
      else None)"

text \<open>The heap after \<^verbatim>\<open>close\<close> of each channel of a list.\<close>

definition close_cells :: "nat list \<Rightarrow> channel list \<Rightarrow> channel list" where
  "close_cells as h = fold (\<lambda>a h. h[a := (h ! a)\<lparr>closed := True\<rparr>]) as h"

definition closed_world :: "nat list \<Rightarrow> world \<Rightarrow> world" where
  "closed_world as s =
     s\<lparr>heap := close_cells as (heap s), events := events s @ map EvClose as\<rparr>"

text \<open>A list of channels that can be closed one after the other: no repetition, all open.\<close>

definition good :: "nat list \<Rightarrow> world \<Rightarrow> bool" where
  "good as s \<longleftrightarrow> distinct as \<and> list_all (\<lambda>a. a < length (heap s) \<and> \<not> closed (heap s ! a)) as"

text \<open>The state after \<^verbatim>\<open>close(m[symbol]); delete(m, symbol)\<close> found the channel \<open>a\<close>.\<close>

definition torn_down :: "feed \<Rightarrow> string \<Rightarrow> nat \<Rightarrow> world \<Rightarrow> world" where
  "torn_down f symbol a s =
     s\<lparr>heap := (heap s)[a := (heap s ! a)\<lparr>closed := True\<rparr>],
       events := events s @ [EvClose a],
       updates := set_feed f (AList.delete symbol (get_feed f (updates s))) (updates s)\<rparr>"

text \<open>The channels held by one feed map.\<close>

definition chans :: "feed \<Rightarrow> world \<Rightarrow> nat set" where
  "chans f s = snd ` set (get_feed f (updates s))"

subsection \<open>Concrete clients\<close>

text \<open>A server that answers every call with the same acknowledgment.\<close>

definition ack_conn :: "bool \<Rightarrow> Conn" where
  "ack_conn b = \<lparr>respond = (\<lambda>op rq. CallResult b), conn_closed = False\<rparr>"

text \<open>A server that acknowledges everything but \<^verbatim>\<open>unsubscribeTicker\<close>.\<close>

definition sticky_conn :: Conn where
  "sticky_conn =
     \<lparr>respond = (\<lambda>op rq. CallResult (op \<noteq> ''unsubscribeTicker'')), conn_closed = False\<rparr>"

definition fresh_world :: "Conn \<Rightarrow> world" where
  "fresh_world cn =
     \<lparr>conn = Some cn,
      updates = \<lparr>notifications =
                   \<lparr>TickerFeed = [], OrderbookFeed_n = [], TradesFeed_n = [],
                    CandlesFeed_n = []\<rparr>,
                 OrderbookFeed = [], TradesFeed = [], CandlesFeed = [],
                 ErrorFeed = Some 0\<rparr>,
      heap = [new_channel],
      events = [EvMake 0]\<rparr>"

text \<open>A client whose connection handle is nil.\<close>

definition nil_conn_world :: world where
  "nil_conn_world = (fresh_world (ack_conn True))\<lparr>conn := None\<rparr>"

text \<open>The client after \<^verbatim>\<open>SubscribeTicker("ETHBTC")\<close> on a fresh connection.\<close>

definition ticker_world :: world where
  "ticker_world = snd (SubscribeTicker ''ETHBTC'' (fresh_world (ack_conn True)))"

text \<open>The same client with one consumer parked in a receive on the error feed.\<close>

definition listening_world :: world where
  "listening_world =
     ticker_world\<lparr>heap := (heap ticker_world)[0 := new_channel\<lparr>receivers := 1\<rparr>]\<rparr>"

text \<open>The client after \<^verbatim>\<open>SubscribeCandles("BTCUSD", Interval1Hour)\<close> on a fresh connection.\<close>

definition candles_world :: world where
  "candles_world =
     snd (SubscribeCandles ''BTCUSD'' Interval1Hour (fresh_world (ack_conn True)))"

text \<open>A client with a ticker, a trades and a candles subscription.\<close>

definition busy_world :: world where
  "busy_world =
     snd (SubscribeCandles ''BTCUSD'' Interval1Hour
       (snd (SubscribeTrades ''ETHBTC'' ticker_world)))"

text \<open>The client after \<^verbatim>\<open>SubscribeTicker("ETHBTC")\<close> at the server that will not unsubscribe.\<close>

definition sticky_world :: world where
  "sticky_world = snd (SubscribeTicker ''ETHBTC'' (fresh_world sticky_conn))"

text \<open>The busy client at a server that answers \<^verbatim>\<open>false\<close> to everything.\<close>

definition deaf_world :: world where
  "deaf_world = busy_world\<lparr>conn := Some (ack_conn False)\<rparr>"

definition echo_unmarshal :: "feed \<Rightarrow> string \<Rightarrow> error + WSNotification" where
  "echo_unmarshal f message =
     (if message = [] then Inl (New ''unexpected end of JSON input'')
      else Inr \<lparr>Symbol = message, Body = message\<rparr>)"

section \<open>Basic facts\<close>

lemma NewWSClient_fresh: "NewWSClient (Inr cn) = Inr (fresh_world cn)"
  by (simp add: NewWSClient_def fresh_world_def)

lemma get_set_feed_same [simp]: "get_feed f (set_feed f m h) = m"
  by (cases f) simp_all

lemma get_set_feed_other [simp]: "f \<noteq> g \<Longrightarrow> get_feed f (set_feed g m h) = get_feed f h"
  by (cases f; cases g) simp_all

lemma ErrorFeed_set_feed [simp]: "ErrorFeed (set_feed f m h) = ErrorFeed h"
  by (cases f) simp_all

lemma Handle_feed_of_method:
  "Handle unmarshal req s =
     (case Params req of
        None \<Rightarrow> (Return (), s)
      | Some message \<Rightarrow>
          (case feed_of_method (Method req) of
             None \<Rightarrow> (Return (), s)
           | Some f \<Rightarrow> decode_and_send unmarshal f message s))"
  by (simp add: Handle_def feed_of_method_def split: option.splits)

lemma conn_ensure_chan [simp]: "conn (ensure_chan f symbol s) = conn s"
  by (simp add: ensure_chan_def make_chan_def)

lemma ensure_chan_present: "lookup f symbol s \<noteq> None \<Longrightarrow> ensure_chan f symbol s = s"
  by (auto simp: ensure_chan_def lookup_def)

lemma lookup_ensure_chan_same:
  "lookup f symbol (ensure_chan f symbol s) =
     (case lookup f symbol s of None \<Rightarrow> Some (length (heap s)) | Some a \<Rightarrow> Some a)"
  by (auto simp: ensure_chan_def lookup_def make_chan_def update_conv' split: option.splits)

lemma lookup_ensure_chan_other:
  "f \<noteq> g \<Longrightarrow> lookup f k (ensure_chan g symbol s) = lookup f k s"
  by (simp add: ensure_chan_def lookup_def make_chan_def)

lemma subscriptionOp_conn:
  assumes "conn s = Some cn"
  shows "subscriptionOp op symbol s =
           (Return (case respond cn op (WSSubscriptionRequest symbol) of
                      CallError err \<Rightarrow> Some err
                    | CallResult ack \<Rightarrow>
                        if ack then None else Some (New ''Subscribe not successful'')),
            s\<lparr>events := events s @ [EvCall op (WSSubscriptionRequest symbol)]\<rparr>)"
  using assms by (simp add: subscriptionOp_def Call_def split: call_result.splits)

lemma candlesSubscriptionOp_conn:
  assumes "conn s = Some cn"
  shows "candlesSubscriptionOp op symbol period s =
           (Return (case respond cn op (WSCandlesSubscriptionRequest symbol period) of
                      CallError err \<Rightarrow> Some err
                    | CallResult ack \<Rightarrow> None),
            s\<lparr>events := events s @ [EvCall op (WSCandlesSubscriptionRequest symbol period)]\<rparr>)"
  using assms by (simp add: candlesSubscriptionOp_def Call_def split: call_result.splits)

lemma close_and_delete_absent:
  "lookup f symbol s = None \<Longrightarrow> close_and_delete f symbol s = (Panic ''close of nil channel'', s)"
  by (simp add: close_and_delete_def close_chan_def lookup_def)

lemma lookup_events [simp]: "lookup f symbol (s\<lparr>events := ev\<rparr>) = lookup f symbol s"
  by (simp add: lookup_def)

lemma SubscribeCandles_acked:
  assumes "conn s = Some cn"
    and "respond cn ''subscribeCandles'' (WSCandlesSubscriptionRequest symbol period) = CallResult ack"
  shows "SubscribeCandles symbol period s =
           (Return (Inr (lookup CandlesUpdate symbol
                           (ensure_chan CandlesSnapshot symbol (ensure_chan CandlesUpdate symbol
                              (s\<lparr>events := events s @ [EvCall ''subscribeCandles''
                                   (WSCandlesSubscriptionRequest symbol period)]\<rparr>))),
                         lookup CandlesSnapshot symbol
                           (ensure_chan CandlesSnapshot symbol (ensure_chan CandlesUpdate symbol
                              (s\<lparr>events := events s @ [EvCall ''subscribeCandles''
                                   (WSCandlesSubscriptionRequest symbol period)]\<rparr>))))),
            ensure_chan CandlesSnapshot symbol (ensure_chan CandlesUpdate symbol
              (s\<lparr>events := events s @ [EvCall ''subscribeCandles''
                   (WSCandlesSubscriptionRequest symbol period)]\<rparr>)))"
  using assms by (simp add: SubscribeCandles_def candlesSubscriptionOp_conn)

lemma lookup_ensure_pair:
  assumes "f \<noteq> g"
  shows "\<exists>a b. lookup f symbol (ensure_chan g symbol (ensure_chan f symbol s)) = Some a \<and>
               lookup g symbol (ensure_chan g symbol (ensure_chan f symbol s)) = Some b"
  using assms
  by (simp add: lookup_ensure_chan_same lookup_ensure_chan_other split: option.splits)

lemma wf_ErrorFeed:
  assumes "wf s"
  obtains e where "ErrorFeed (updates s) = Some e" "e \<notin> set (registered (updates s))"
    "e < length (heap s)" "\<not> closed (heap s ! e)"
  using assms by (auto simp: wf_def split: option.splits)

subsection \<open>Closing channels\<close>

lemma length_close_cells [simp]: "length (close_cells as h) = length h"
  unfolding close_cells_def by (induction as arbitrary: h) simp_all

lemma close_cells_Cons: "close_cells (a # as) h = close_cells as (h[a := (h ! a)\<lparr>closed := True\<rparr>])"
  by (simp add: close_cells_def)

lemma close_cells_append: "close_cells (as @ bs) h = close_cells bs (close_cells as h)"
  by (simp add: close_cells_def)

lemma close_cells_other: "a \<notin> set as \<Longrightarrow> close_cells as h ! a = h ! a"
  by (induction as arbitrary: h) (simp_all add: close_cells_Cons close_cells_def)

lemma close_cells_closed: "a \<in> set as \<Longrightarrow> a < length h \<Longrightarrow> closed (close_cells as h ! a)"
proof (induction as arbitrary: h)
  case Nil
  then show ?case by simp
next
  case (Cons b as)
  show ?case
  proof (cases "a \<in> set as")
    case True
    then show ?thesis using Cons by (simp add: close_cells_Cons)
  next
    case False
    then have "a = b" using Cons.prems by simp
    then show ?thesis using False Cons.prems by (simp add: close_cells_Cons close_cells_other)
  qed
qed

lemma closed_world_Nil: "closed_world [] s = s"
  by (simp add: closed_world_def close_cells_def)

lemma closed_world_append: "closed_world bs (closed_world as s) = closed_world (as @ bs) s"
  by (simp add: closed_world_def close_cells_append)

lemma updates_closed_world [simp]: "updates (closed_world as s) = updates s"
  by (simp add: closed_world_def)

lemma conn_closed_world [simp]: "conn (closed_world as s) = conn s"
  by (simp add: closed_world_def)

lemma close_each_good: "good as s \<Longrightarrow> close_each as s = (Return (), closed_world as s)"
proof (induction as arbitrary: s)
  case Nil
  then show ?case by (simp add: closed_world_Nil)
next
  case (Cons a as)
  define s' where "s' = s\<lparr>heap := (heap s)[a := (heap s ! a)\<lparr>closed := True\<rparr>],
                         events := events s @ [EvClose a]\<rparr>"
  have c: "close_chan (Some a) s = (Return (), s')"
    using Cons.prems by (simp add: good_def close_chan_def s'_def)
  have g: "good as s'"
    using Cons.prems by (auto simp: good_def s'_def list_all_iff nth_list_update)
  have "closed_world as s' = closed_world (a # as) s"
    by (simp add: closed_world_def s'_def close_cells_Cons)
  then show ?case
    using Cons.IH [OF g] c by simp
qed

lemma good_closed_world:
  assumes "good (as @ bs) s"
  shows "good bs (closed_world as s)"
proof -
  have d: "distinct bs" and i: "set as \<inter> set bs = {}"
    and o: "\<forall>a\<in>set bs. a < length (heap s) \<and> \<not> closed (heap s ! a)"
    using assms by (auto simp: good_def list_all_iff)
  have "close_cells as (heap s) ! a = heap s ! a" if "a \<in> set bs" for a
    using that i by (intro close_cells_other) auto
  then show ?thesis
    using d o by (simp add: good_def closed_world_def list_all_iff)
qed

lemma close_each_after:
  "good (as @ bs) s \<Longrightarrow> close_each bs (closed_world as s) = (Return (), closed_world (as @ bs) s)"
  by (simp add: close_each_good good_closed_world closed_world_append)

lemma close_feed_after:
  "good (as @ map snd (get_feed f (updates s))) s \<Longrightarrow>
   close_feed f (closed_world as s) = (Return (), closed_world (as @ map snd (get_feed f (updates s))) s)"
  by (simp add: close_feed_def close_each_after)

lemma close_chan_after:
  assumes "good (as @ [e]) s"
  shows "close_chan (Some e) (closed_world as s) = (Return (), closed_world (as @ [e]) s)"
  using close_each_after [OF assms] 
  by (cases "close_chan (Some e) (closed_world as s)"; cases "fst (close_chan (Some e) (closed_world as s))") auto

lemma good_prefix: "good (as @ bs) s \<Longrightarrow> good as s"
  by (simp add: good_def)

lemma registered_unfold:
  "registered h =
     map snd (get_feed Ticker h) @ map snd (get_feed TradesUpdate h) @
     map snd (get_feed CandlesUpdate h) @ map snd (get_feed OrderbookUpdate h) @
     map snd (get_feed OrderbookSnapshot h) @ map snd (get_feed TradesSnapshot h) @
     map snd (get_feed CandlesSnapshot h)"
  by (simp add: registered_def all_feeds_def)

lemma wf_good:
  assumes "wf s" and "ErrorFeed (updates s) = Some e"
  shows "good (registered (updates s) @ [e]) s"
  using assms by (simp add: wf_def good_def)

lemma Close_good:
  assumes "conn s = Some cn" and "ErrorFeed (updates s) = Some e"
    and "good (registered (updates s) @ [e]) s"
  shows "Close s =
           (Return (),
            remake_ErrorFeed (reset_feeds (closed_world (registered (updates s) @ [e])
              (s\<lparr>conn := Some (cn\<lparr>respond := (\<lambda>op rq. CallError ErrClosed),
                                   conn_closed := True\<rparr>),
                 events := events s @ [EvConnClose]\<rparr>))))"
proof -
  define s0 where "s0 = s\<lparr>conn := Some (cn\<lparr>respond := (\<lambda>op rq. CallError ErrClosed),
                                           conn_closed := True\<rparr>),
                         events := events s @ [EvConnClose]\<rparr>"
  define R where "R = (\<lambda>f. map snd (get_feed f (updates s0)))"
  have u0: "updates s0 = updates s" by (simp add: s0_def)
  have g: "good (R Ticker @ R TradesUpdate @ R CandlesUpdate @ R OrderbookUpdate @
                 R OrderbookSnapshot @ R TradesSnapshot @ R CandlesSnapshot @ [e]) s0"
    using assms(3) unfolding R_def u0 registered_unfold by (simp add: good_def s0_def)
  have g7: "good (R Ticker @ R TradesUpdate @ R CandlesUpdate @ R OrderbookUpdate @
                 R OrderbookSnapshot @ R TradesSnapshot @ R CandlesSnapshot) s0"
    using good_prefix [of "R Ticker @ R TradesUpdate @ R CandlesUpdate @ R OrderbookUpdate @
                 R OrderbookSnapshot @ R TradesSnapshot @ R CandlesSnapshot" "[e]" s0] g by simp
  have g6: "good (R Ticker @ R TradesUpdate @ R CandlesUpdate @ R OrderbookUpdate @
                 R OrderbookSnapshot @ R TradesSnapshot) s0"
    using good_prefix [of "R Ticker @ R TradesUpdate @ R CandlesUpdate @ R OrderbookUpdate @
                 R OrderbookSnapshot @ R TradesSnapshot" "R CandlesSnapshot" s0] g7 by simp
  have g5: "good (R Ticker @ R TradesUpdate @ R CandlesUpdate @ R OrderbookUpdate @
                 R OrderbookSnapshot) s0"
    using good_prefix [of "R Ticker @ R TradesUpdate @ R CandlesUpdate @ R OrderbookUpdate @
                 R OrderbookSnapshot" "R TradesSnapshot" s0] g6 by simp
  have g4: "good (R Ticker @ R TradesUpdate @ R CandlesUpdate @ R OrderbookUpdate) s0"
    using good_prefix [of "R Ticker @ R TradesUpdate @ R CandlesUpdate @ R OrderbookUpdate"
        "R OrderbookSnapshot" s0] g5 by simp
  have g3: "good (R Ticker @ R TradesUpdate @ R CandlesUpdate) s0"
    using good_prefix [of "R Ticker @ R TradesUpdate @ R CandlesUpdate" "R OrderbookUpdate" s0] g4
    by simp
  have g2: "good (R Ticker @ R TradesUpdate) s0"
    using good_prefix [of "R Ticker @ R TradesUpdate" "R CandlesUpdate" s0] g3 by simp
  have g1: "good (R Ticker) s0"
    using good_prefix [of "R Ticker" "R TradesUpdate" s0] g2 by simp
  have c0: "conn_Close s = (Return (), closed_world [] s0)"
    using assms(1) by (simp add: conn_Close_def s0_def closed_world_Nil)
  have c1: "close_feed Ticker (closed_world [] s0) = (Return (), closed_world (R Ticker) s0)"
    using close_feed_after [of "[]" Ticker s0] g1 by (simp add: R_def)
  have c2: "close_feed TradesUpdate (closed_world (R Ticker) s0)
      = (Return (), closed_world (R Ticker @ R TradesUpdate) s0)"
    using close_feed_after [of "R Ticker" TradesUpdate s0] g2 by (simp add: R_def)
  have c3: "close_feed CandlesUpdate (closed_world (R Ticker @ R TradesUpdate) s0)
      = (Return (), closed_world (R Ticker @ R TradesUpdate @ R CandlesUpdate) s0)"
    using close_feed_after [of "R Ticker @ R TradesUpdate" CandlesUpdate s0] g3 by (simp add: R_def)
  have c4: "close_feed OrderbookUpdate (closed_world (R Ticker @ R TradesUpdate @ R CandlesUpdate) s0)
      = (Return (), closed_world (R Ticker @ R TradesUpdate @ R CandlesUpdate @ R OrderbookUpdate) s0)"
    using close_feed_after [of "R Ticker @ R TradesUpdate @ R CandlesUpdate" OrderbookUpdate s0] g4
    by (simp add: R_def)
  have c5: "close_feed OrderbookSnapshot
        (closed_world (R Ticker @ R TradesUpdate @ R CandlesUpdate @ R OrderbookUpdate) s0)
      = (Return (), closed_world (R Ticker @ R TradesUpdate @ R CandlesUpdate @ R OrderbookUpdate @
                 R OrderbookSnapshot) s0)"
    using close_feed_after [of "R Ticker @ R TradesUpdate @ R CandlesUpdate @ R OrderbookUpdate"
        OrderbookSnapshot s0] g5
    by (simp add: R_def)
  have c6: "close_feed TradesSnapshot
        (closed_world (R Ticker @ R TradesUpdate @ R CandlesUpdate @ R OrderbookUpdate @
                 R OrderbookSnapshot) s0)
      = (Return (), closed_world (R Ticker @ R TradesUpdate @ R CandlesUpdate @ R OrderbookUpdate @
                 R OrderbookSnapshot @ R TradesSnapshot) s0)"
    using close_feed_after [of "R Ticker @ R TradesUpdate @ R CandlesUpdate @ R OrderbookUpdate @
                 R OrderbookSnapshot" TradesSnapshot s0] g6
    by (simp add: R_def)
  have c7: "close_feed CandlesSnapshot
        (closed_world (R Ticker @ R TradesUpdate @ R CandlesUpdate @ R OrderbookUpdate @
                 R OrderbookSnapshot @ R TradesSnapshot) s0)
      = (Return (), closed_world (R Ticker @ R TradesUpdate @ R CandlesUpdate @ R OrderbookUpdate @
                 R OrderbookSnapshot @ R TradesSnapshot @ R CandlesSnapshot) s0)"
    using close_feed_after [of "R Ticker @ R TradesUpdate @ R CandlesUpdate @ R OrderbookUpdate @
                 R OrderbookSnapshot @ R TradesSnapshot" CandlesSnapshot s0] g7
    by (simp add: R_def)
  have c8: "close_chan (Some e)
        (closed_world (R Ticker @ R TradesUpdate @ R CandlesUpdate @ R OrderbookUpdate @
                 R OrderbookSnapshot @ R TradesSnapshot @ R CandlesSnapshot) s0)
      = (Return (), closed_world (R Ticker @ R TradesUpdate @ R CandlesUpdate @ R OrderbookUpdate @
                 R OrderbookSnapshot @ R TradesSnapshot @ R CandlesSnapshot @ [e]) s0)"
    using close_chan_after [of "R Ticker @ R TradesUpdate @ R CandlesUpdate @ R OrderbookUpdate @
                 R OrderbookSnapshot @ R TradesSnapshot @ R CandlesSnapshot" e s0] g
    by simp
  have r: "registered (updates s) @ [e] = R Ticker @ R TradesUpdate @ R CandlesUpdate @ R OrderbookUpdate @
                 R OrderbookSnapshot @ R TradesSnapshot @ R CandlesSnapshot @ [e]"
    unfolding R_def u0 registered_unfold by simp
  show ?thesis
    unfolding Close_def r s0_def [symmetric]
    by (simp only: c0 c1 c2 c3 c4 c5 c6 c7 c8 bind.simps updates_closed_world u0 assms(2))
qed

lemma get_feed_reset [simp]: "get_feed f (updates (reset_feeds s)) = []"
  by (cases f) (simp_all add: reset_feeds_def)

lemma ErrorFeed_reset [simp]: "ErrorFeed (updates (reset_feeds s)) = ErrorFeed (updates s)"
  by (simp add: reset_feeds_def)

lemma heap_reset [simp]: "heap (reset_feeds s) = heap s"
  by (simp add: reset_feeds_def)

lemma events_reset [simp]: "events (reset_feeds s) = events s"
  by (simp add: reset_feeds_def)

lemma conn_reset [simp]: "conn (reset_feeds s) = conn s"
  by (simp add: reset_feeds_def)

lemma get_feed_remake [simp]: "get_feed f (updates (remake_ErrorFeed s)) = get_feed f (updates s)"
  by (cases f) (simp_all add: remake_ErrorFeed_def make_chan_def)

lemma remake_simps [simp]:
  "ErrorFeed (updates (remake_ErrorFeed s)) = Some (length (heap s))"
  "heap (remake_ErrorFeed s) = heap s @ [new_channel]"
  "events (remake_ErrorFeed s) = events s @ [EvMake (length (heap s))]"
  "conn (remake_ErrorFeed s) = conn s"
  by (simp_all add: remake_ErrorFeed_def make_chan_def)

lemma wf_after_reset: "wf (remake_ErrorFeed (reset_feeds s))"
  by (simp add: wf_def registered_def all_feeds_def list_all_iff new_channel_def del: get_feed.simps)

subsection \<open>Tearing down a subscription\<close>

lemma bind_eq_Return:
  "bind m f = (Return y, s') \<longleftrightarrow> (\<exists>x t. m = (Return x, t) \<and> f x t = (Return y, s'))"
proof (cases m)
  case (Pair r t)
  then show ?thesis by (cases r) simp_all
qed

lemma close_and_delete_eq_Return:
  "close_and_delete f symbol s = (Return x, s') \<longleftrightarrow>
     (\<exists>a. lookup f symbol s = Some a \<and> a < length (heap s) \<and> \<not> closed (heap s ! a) \<and>
          s' = torn_down f symbol a s)"
  by (auto simp: close_and_delete_def close_chan_def lookup_def torn_down_def
      split: option.splits)

lemma close_and_delete_present:
  assumes "lookup f symbol s = Some a" and "a < length (heap s)" and "\<not> closed (heap s ! a)"
  shows "close_and_delete f symbol s = (Return (), torn_down f symbol a s)"
  using assms by (simp add: close_and_delete_eq_Return)

lemma lookup_torn_down_same [simp]: "lookup f symbol (torn_down f symbol a s) = None"
  by (simp add: lookup_def torn_down_def delete_conv')

lemma lookup_torn_down_other [simp]:
  "f \<noteq> g \<Longrightarrow> lookup g k (torn_down f symbol a s) = lookup g k s"
  by (simp add: lookup_def torn_down_def)

lemma length_heap_torn_down [simp]: "length (heap (torn_down f symbol a s)) = length (heap s)"
  by (simp add: torn_down_def)

lemma conn_torn_down [simp]: "conn (torn_down f symbol a s) = conn s"
  by (simp add: torn_down_def)

lemma heap_torn_down_other: "b \<noteq> a \<Longrightarrow> heap (torn_down f symbol a s) ! b = heap s ! b"
  by (simp add: torn_down_def)

lemma receive_torn_down_same:
  "a < length (heap s) \<Longrightarrow> receive (Some a) (torn_down f symbol a s) = NoMoreValues"
  by (simp add: receive_def torn_down_def)

lemma receive_torn_down_mono:
  "receive c s = NoMoreValues \<Longrightarrow> receive c (torn_down f symbol a s) = NoMoreValues"
  by (cases c; cases "a < length (heap s)")
    (auto simp: receive_def torn_down_def nth_list_update split: if_splits)

lemma lookup_cong_updates: "updates t = updates s \<Longrightarrow> lookup f k t = lookup f k s"
  by (simp add: lookup_def)

lemma subscriptionOp_frame:
  assumes "subscriptionOp op symbol s = (r, t)"
  shows "updates t = updates s \<and> heap t = heap s \<and> conn t = conn s"
  using assms
  by (auto simp: subscriptionOp_def Call_def split: if_splits option.splits call_result.splits)

lemma candlesSubscriptionOp_frame:
  assumes "candlesSubscriptionOp op symbol period s = (r, t)"
  shows "updates t = updates s \<and> heap t = heap s \<and> conn t = conn s"
  using assms
  by (auto simp: candlesSubscriptionOp_def Call_def split: option.splits call_result.splits)

text \<open>What a completed teardown of one or two feeds leaves behind.\<close>

lemma teardown_single_Return:
  assumes "bind (close_and_delete f symbol t) (\<lambda>_ s. (Return None, s)) = (Return None, s2)"
  shows "lookup f symbol s2 = None \<and> receive (lookup f symbol t) s2 = NoMoreValues"
  using assms
  by (auto simp: bind_eq_Return close_and_delete_eq_Return receive_torn_down_same)

lemma teardown_pair_Return:
  assumes "f \<noteq> g"
    and "bind (close_and_delete f symbol t) (\<lambda>_ s.
         bind (close_and_delete g symbol s) (\<lambda>_ s. (Return None, s))) = (Return None, s2)"
  shows "lookup f symbol s2 = None \<and> lookup g symbol s2 = None \<and>
         receive (lookup f symbol t) s2 = NoMoreValues \<and>
         receive (lookup g symbol t) s2 = NoMoreValues"
proof -
  from assms(2) obtain a b where a: "lookup f symbol t = Some a" "a < length (heap t)"
    and b: "lookup g symbol (torn_down f symbol a t) = Some b"
      "b < length (heap (torn_down f symbol a t))"
    and s2: "s2 = torn_down g symbol b (torn_down f symbol a t)"
    by (auto simp: bind_eq_Return close_and_delete_eq_Return)
  have gb: "lookup g symbol t = Some b"
    using b(1) assms(1) by simp
  have "receive (Some a) s2 = NoMoreValues"
    unfolding s2 using a(2) by (intro receive_torn_down_mono receive_torn_down_same)
  moreover have "receive (Some b) s2 = NoMoreValues"
    unfolding s2 using b(2) by (intro receive_torn_down_same)
  moreover have "lookup f symbol s2 = None"
    unfolding s2 using assms(1) by simp
  moreover have "lookup g symbol s2 = None"
    unfolding s2 by simp
  ultimately show ?thesis
    using a(1) gb by simp
qed

lemma SubscribeTicker_Return:
  assumes "SubscribeTicker symbol s = (Return (Inr ch), s1)"
  shows "ch = lookup Ticker symbol s1"
  using assms by (auto simp: SubscribeTicker_def bind_eq_Return split: option.splits)

lemma SubscribeTrades_Return:
  assumes "SubscribeTrades symbol s = (Return (Inr (u, n)), s1)"
  shows "u = lookup TradesUpdate symbol s1 \<and> n = lookup TradesSnapshot symbol s1"
  using assms by (auto simp: SubscribeTrades_def bind_eq_Return split: option.splits)

lemma SubscribeOrderbook_Return:
  assumes "SubscribeOrderbook symbol s = (Return (Inr (u, n)), s1)"
  shows "u = lookup OrderbookUpdate symbol s1 \<and> n = lookup OrderbookSnapshot symbol s1"
  using assms by (auto simp: SubscribeOrderbook_def bind_eq_Return split: option.splits)

lemma SubscribeCandles_Return:
  assumes "SubscribeCandles symbol period s = (Return (Inr (u, n)), s1)"
  shows "u = lookup CandlesUpdate symbol s1 \<and> n = lookup CandlesSnapshot symbol s1"
  using assms by (auto simp: SubscribeCandles_def bind_eq_Return split: option.splits)

lemma UnsubscribeTicker_Return:
  assumes "UnsubscribeTicker symbol s1 = (Return None, s2)"
  shows "lookup Ticker symbol s2 = None \<and> receive (lookup Ticker symbol s1) s2 = NoMoreValues"
proof -
  from assms obtain t where t: "subscriptionOp ''unsubscribeTicker'' symbol s1 = (Return None, t)"
    and c: "bind (close_and_delete Ticker symbol t) (\<lambda>_ s. (Return None, s)) = (Return None, s2)"
    by (auto simp: UnsubscribeTicker_def bind_eq_Return split: option.splits)
  have "updates t = updates s1"
    using subscriptionOp_frame [OF t] by simp
  then show ?thesis
    using teardown_single_Return [OF c] by (simp add: lookup_def)
qed

lemma UnsubscribeTrades_Return:
  assumes "UnsubscribeTrades symbol s1 = (Return None, s2)"
  shows "lookup TradesUpdate symbol s2 = None \<and> lookup TradesSnapshot symbol s2 = None \<and>
         receive (lookup TradesUpdate symbol s1) s2 = NoMoreValues \<and>
         receive (lookup TradesSnapshot symbol s1) s2 = NoMoreValues"
proof -
  from assms obtain t where t: "subscriptionOp ''unsubscribeTrades'' symbol s1 = (Return None, t)"
    and c: "bind (close_and_delete TradesUpdate symbol t) (\<lambda>_ s.
            bind (close_and_delete TradesSnapshot symbol s) (\<lambda>_ s. (Return None, s)))
              = (Return None, s2)"
    by (auto simp: UnsubscribeTrades_def bind_eq_Return split: option.splits)
  have "updates t = updates s1"
    using subscriptionOp_frame [OF t] by simp
  then show ?thesis
    using teardown_pair_Return [OF _ c] by (simp add: lookup_def)
qed

lemma UnsubscribeOrderbook_Return:
  assumes "UnsubscribeOrderbook symbol s1 = (Return None, s2)"
  shows "lookup OrderbookUpdate symbol s2 = None \<and> lookup OrderbookSnapshot symbol s2 = None \<and>
         receive (lookup OrderbookUpdate symbol s1) s2 = NoMoreValues \<and>
         receive (lookup OrderbookSnapshot symbol s1) s2 = NoMoreValues"
proof -
  from assms obtain t where t: "subscriptionOp ''unsubscribeOrderbook'' symbol s1 = (Return None, t)"
    and c: "bind (close_and_delete OrderbookUpdate symbol t) (\<lambda>_ s.
            bind (close_and_delete OrderbookSnapshot symbol s) (\<lambda>_ s. (Return None, s)))
              = (Return None, s2)"
    by (auto simp: UnsubscribeOrderbook_def bind_eq_Return split: option.splits)
  have "updates t = updates s1"
    using subscriptionOp_frame [OF t] by simp
  then show ?thesis
    using teardown_pair_Return [OF _ c] by (simp add: lookup_def)
qed

lemma UnsubscribeCandles_Return:
  assumes "UnsubscribeCandles symbol period s1 = (Return None, s2)"
  shows "lookup CandlesUpdate symbol s2 = None \<and> lookup CandlesSnapshot symbol s2 = None \<and>
         receive (lookup CandlesUpdate symbol s1) s2 = NoMoreValues \<and>
         receive (lookup CandlesSnapshot symbol s1) s2 = NoMoreValues"
proof -
  from assms obtain t where
    t: "candlesSubscriptionOp ''unsubscribeCandles'' symbol period s1 = (Return None, t)"
    and c: "bind (close_and_delete CandlesUpdate symbol t) (\<lambda>_ s.
            bind (close_and_delete CandlesSnapshot symbol s) (\<lambda>_ s. (Return None, s)))
              = (Return None, s2)"
    by (auto simp: UnsubscribeCandles_def bind_eq_Return split: option.splits)
  have "updates t = updates s1"
    using candlesSubscriptionOp_frame [OF t] by simp
  then show ?thesis
    using teardown_pair_Return [OF _ c] by (simp add: lookup_def)
qed

lemma feed_in_all_feeds: "f \<in> set all_feeds"
  by (cases f) (simp_all add: all_feeds_def)

lemma lookup_registered:
  assumes "lookup f symbol s = Some a"
  shows "a \<in> set (registered (updates s))"
proof -
  have "(symbol, a) \<in> set (get_feed f (updates s))"
    using assms by (simp add: lookup_def map_of_SomeD)
  then have "a \<in> set (map snd (get_feed f (updates s)))"
    by force
  then show ?thesis
    unfolding registered_def using feed_in_all_feeds [of f] by auto
qed

lemma wf_lookup:
  assumes "wf s" and "lookup f symbol s = Some a"
  shows "a < length (heap s) \<and> \<not> closed (heap s ! a)"
  using assms(1) lookup_registered [OF assms(2)]
  by (auto simp: wf_def list_all_iff split: option.splits)

lemma distinct_concat_disjoint:
  assumes "distinct (concat (map F xs))" and "distinct xs"
    and "x \<in> set xs" and "y \<in> set xs" and "x \<noteq> y"
  shows "set (F x) \<inter> set (F y) = {}"
  using assms
proof (induction xs)
  case Nil
  then show ?case by simp
next
  case (Cons z zs)
  then show ?case by (cases "x = z"; cases "y = z") auto
qed

lemma wf_lookup_distinct:
  assumes "wf s" and "f \<noteq> g" and "lookup f k s = Some a" and "lookup g k' s = Some b"
  shows "a \<noteq> b"
proof -
  have d: "distinct (concat (map (\<lambda>f. map snd (get_feed f (updates s))) all_feeds))"
    using assms(1) by (auto simp: wf_def registered_def split: option.splits)
  have "set (map snd (get_feed f (updates s))) \<inter> set (map snd (get_feed g (updates s))) = {}"
    using distinct_concat_disjoint [OF d _ feed_in_all_feeds feed_in_all_feeds assms(2)]
    by (simp add: all_feeds_def)
  moreover have "a \<in> set (map snd (get_feed f (updates s)))"
    using assms(3) by (force simp: lookup_def dest: map_of_SomeD)
  moreover have "b \<in> set (map snd (get_feed g (updates s)))"
    using assms(4) by (force simp: lookup_def dest: map_of_SomeD)
  ultimately show ?thesis by blast
qed

lemma wf_events [simp]: "wf (s\<lparr>events := ev\<rparr>) = wf s"
  by (simp add: wf_def cong: option.case_cong)

lemma teardown_single_wf:
  assumes "wf t" and "lookup f symbol t = Some a"
  shows "close_and_delete f symbol t = (Return (), torn_down f symbol a t)"
  using wf_lookup [OF assms] assms(2) by (simp add: close_and_delete_present)

lemma teardown_pair_wf:
  assumes "wf t" and "f \<noteq> g" and "lookup f symbol t = Some a" and "lookup g symbol t = Some b"
  shows "bind (close_and_delete f symbol t) (\<lambda>_ s.
         bind (close_and_delete g symbol s) (\<lambda>_ s. (Return None, s)))
           = (Return None, torn_down g symbol b (torn_down f symbol a t))"
proof -
  have 1: "close_and_delete f symbol t = (Return (), torn_down f symbol a t)"
    using assms(1,3) by (rule teardown_single_wf)
  have ab: "b \<noteq> a"
    using wf_lookup_distinct [OF assms(1,2,3,4)] by simp
  have "b < length (heap t)" "\<not> closed (heap t ! b)"
    using wf_lookup [OF assms(1,4)] by simp_all
  then have 2: "close_and_delete g symbol (torn_down f symbol a t)
                  = (Return (), torn_down g symbol b (torn_down f symbol a t))"
    using assms(2,4) ab by (intro close_and_delete_present) (simp_all add: heap_torn_down_other)
  show ?thesis
    by (simp add: 1 2)
qed

lemma torn_pair_facts:
  assumes "f \<noteq> g" and "a < length (heap t)" and "b < length (heap t)"
  shows "lookup f symbol (torn_down g symbol b (torn_down f symbol a t)) = None"
    and "lookup g symbol (torn_down g symbol b (torn_down f symbol a t)) = None"
    and "receive (Some a) (torn_down g symbol b (torn_down f symbol a t)) = NoMoreValues"
    and "receive (Some b) (torn_down g symbol b (torn_down f symbol a t)) = NoMoreValues"
  using assms by (simp_all add: receive_torn_down_same receive_torn_down_mono)

subsection \<open>The concrete clients, evaluated\<close>

lemma ticker_world_simp:
  "ticker_world = \<lparr>conn = Some (ack_conn True),
      updates = \<lparr>notifications =
                   \<lparr>TickerFeed = [(''ETHBTC'', 1)], OrderbookFeed_n = [], TradesFeed_n = [],
                    CandlesFeed_n = []\<rparr>,
                 OrderbookFeed = [], TradesFeed = [], CandlesFeed = [],
                 ErrorFeed = Some 0\<rparr>,
      heap = [new_channel, new_channel],
      events = [EvMake 0, EvCall ''subscribeTicker'' (WSSubscriptionRequest ''ETHBTC''), EvMake 1]\<rparr>"
  by (simp add: ticker_world_def SubscribeTicker_def subscriptionOp_def Call_def fresh_world_def
      ack_conn_def ensure_chan_def make_chan_def lookup_def)

lemma candles_world_simp:
  "candles_world = \<lparr>conn = Some (ack_conn True),
      updates = \<lparr>notifications =
                   \<lparr>TickerFeed = [], OrderbookFeed_n = [], TradesFeed_n = [],
                    CandlesFeed_n = [(''BTCUSD'', 1)]\<rparr>,
                 OrderbookFeed = [], TradesFeed = [], CandlesFeed = [(''BTCUSD'', 2)],
                 ErrorFeed = Some 0\<rparr>,
      heap = [new_channel, new_channel, new_channel],
      events = [EvMake 0,
                EvCall ''subscribeCandles'' (WSCandlesSubscriptionRequest ''BTCUSD'' ''H1''),
                EvMake 1, EvMake 2]\<rparr>"
  by (simp add: candles_world_def SubscribeCandles_def candlesSubscriptionOp_def Call_def
      fresh_world_def ack_conn_def ensure_chan_def make_chan_def lookup_def Interval1Hour_def)

lemma wf_fresh_world: "wf (fresh_world cn)"
  by (simp add: fresh_world_def wf_def registered_def all_feeds_def new_channel_def)

lemma wf_ticker_world: "wf ticker_world"
  by (simp add: ticker_world_simp wf_def registered_def all_feeds_def new_channel_def)

lemma wf_listening_world: "wf listening_world"
  by (simp add: listening_world_def ticker_world_simp wf_def registered_def all_feeds_def
      new_channel_def)

lemma busy_world_simp:
  "busy_world = \<lparr>conn = Some (ack_conn True),
      updates = \<lparr>notifications =
                   \<lparr>TickerFeed = [(''ETHBTC'', 1)], OrderbookFeed_n = [],
                    TradesFeed_n = [(''ETHBTC'', 2)], CandlesFeed_n = [(''BTCUSD'', 4)]\<rparr>,
                 OrderbookFeed = [], TradesFeed = [(''ETHBTC'', 3)],
                 CandlesFeed = [(''BTCUSD'', 5)], ErrorFeed = Some 0\<rparr>,
      heap = [new_channel, new_channel, new_channel, new_channel, new_channel, new_channel],
      events = [EvMake 0, EvCall ''subscribeTicker'' (WSSubscriptionRequest ''ETHBTC''), EvMake 1,
                EvCall ''subscribeTrades'' (WSSubscriptionRequest ''ETHBTC''), EvMake 2, EvMake 3,
                EvCall ''subscribeCandles'' (WSCandlesSubscriptionRequest ''BTCUSD'' ''H1''),
                EvMake 4, EvMake 5]\<rparr>"
  by (simp add: busy_world_def ticker_world_simp SubscribeTrades_def SubscribeCandles_def
      subscriptionOp_def candlesSubscriptionOp_def Call_def ack_conn_def ensure_chan_def
      make_chan_def lookup_def Interval1Hour_def)

lemma wf_busy_world: "wf busy_world"
  by (simp add: busy_world_simp wf_def registered_def all_feeds_def new_channel_def)

lemma sticky_world_simp:
  "sticky_world = \<lparr>conn = Some sticky_conn,
      updates = \<lparr>notifications =
                   \<lparr>TickerFeed = [(''ETHBTC'', 1)], OrderbookFeed_n = [], TradesFeed_n = [],
                    CandlesFeed_n = []\<rparr>,
                 OrderbookFeed = [], TradesFeed = [], CandlesFeed = [],
                 ErrorFeed = Some 0\<rparr>,
      heap = [new_channel, new_channel],
      events = [EvMake 0, EvCall ''subscribeTicker'' (WSSubscriptionRequest ''ETHBTC''), EvMake 1]\<rparr>"
  by (simp add: sticky_world_def SubscribeTicker_def subscriptionOp_def Call_def fresh_world_def
      sticky_conn_def ensure_chan_def make_chan_def lookup_def)

lemma wf_sticky_world: "wf sticky_world"
  by (simp add: sticky_world_simp wf_def registered_def all_feeds_def new_channel_def)

lemma wf_deaf_world: "wf deaf_world"
  by (simp add: deaf_world_def busy_world_simp wf_def registered_def all_feeds_def new_channel_def)

subsection \<open>Well-formed clients stay well-formed\<close>

lemma update_absent: "map_of al k = None \<Longrightarrow> AList.update k v al = al @ [(k, v)]"
  by (induction al) (auto split: if_splits)

lemma set_all_feeds: "set all_feeds = UNIV"
  using feed_in_all_feeds by blast

lemma distinct_all_feeds: "distinct all_feeds"
  by (simp add: all_feeds_def)

lemma distinct_concat_map_iff:
  assumes "distinct xs"
  shows "distinct (concat (map F xs)) \<longleftrightarrow>
           (\<forall>x\<in>set xs. distinct (F x)) \<and>
           (\<forall>x\<in>set xs. \<forall>y\<in>set xs. x \<noteq> y \<longrightarrow> set (F x) \<inter> set (F y) = {})"
  using assms
proof (induction xs)
  case Nil
  then show ?case by simp
next
  case (Cons z zs)
  define D where "D = (\<lambda>x y. set (F x) \<inter> set (F y) = {})"
  have sym: "D x y \<longleftrightarrow> D y x" for x y
    by (auto simp: D_def)
  have z: "z \<notin> set zs" and IH: "distinct (concat (map F zs)) \<longleftrightarrow>
      (\<forall>x\<in>set zs. distinct (F x)) \<and> (\<forall>x\<in>set zs. \<forall>y\<in>set zs. x \<noteq> y \<longrightarrow> D x y)"
    using Cons by (simp_all add: D_def)
  have 1: "distinct (concat (map F (z # zs))) \<longleftrightarrow>
          distinct (F z) \<and> distinct (concat (map F zs)) \<and> (\<forall>y\<in>set zs. D z y)"
    by (auto simp: D_def)
  have 2: "(\<forall>x\<in>set (z # zs). \<forall>y\<in>set (z # zs). x \<noteq> y \<longrightarrow> D x y) \<longleftrightarrow>
          (\<forall>y\<in>set zs. D z y) \<and> (\<forall>x\<in>set zs. \<forall>y\<in>set zs. x \<noteq> y \<longrightarrow> D x y)"
  proof
    assume a: "\<forall>x\<in>set (z # zs). \<forall>y\<in>set (z # zs). x \<noteq> y \<longrightarrow> D x y"
    show "(\<forall>y\<in>set zs. D z y) \<and> (\<forall>x\<in>set zs. \<forall>y\<in>set zs. x \<noteq> y \<longrightarrow> D x y)"
      using a z by auto
  next
    assume b: "(\<forall>y\<in>set zs. D z y) \<and> (\<forall>x\<in>set zs. \<forall>y\<in>set zs. x \<noteq> y \<longrightarrow> D x y)"
    show "\<forall>x\<in>set (z # zs). \<forall>y\<in>set (z # zs). x \<noteq> y \<longrightarrow> D x y"
    proof (intro ballI impI)
      fix x y
      assume x: "x \<in> set (z # zs)" and y: "y \<in> set (z # zs)" and n: "x \<noteq> y"
      show "D x y"
      proof (cases "x = z")
        case True
        then show ?thesis using b y n by auto
      next
        case False
        then have xs: "x \<in> set zs" using x by simp
        show ?thesis
        proof (cases "y = z")
          case True
          then show ?thesis using b xs sym [of x z] by auto
        next
          case False
          then show ?thesis using b xs y n by auto
        qed
      qed
    qed
  qed
  have "distinct (concat (map F (z # zs))) \<longleftrightarrow>
          (\<forall>x\<in>set (z # zs). distinct (F x)) \<and>
          (\<forall>x\<in>set (z # zs). \<forall>y\<in>set (z # zs). x \<noteq> y \<longrightarrow> D x y)"
    unfolding 1 2 IH by auto
  then show ?case by (simp only: D_def)
qed

lemma set_registered: "set (registered (updates s)) = (\<Union>f. chans f s)"
  by (simp add: registered_def chans_def set_all_feeds)

lemma distinct_registered:
  "distinct (registered (updates s)) \<longleftrightarrow>
     (\<forall>f. distinct (map snd (get_feed f (updates s)))) \<and>
     (\<forall>f g. f \<noteq> g \<longrightarrow> chans f s \<inter> chans g s = {})"
  unfolding registered_def chans_def
  by (simp add: distinct_concat_map_iff [OF distinct_all_feeds] set_all_feeds)

lemma wf_iff:
  "wf s \<longleftrightarrow>
     (\<forall>f. distinct (map fst (get_feed f (updates s)))) \<and>
     (\<forall>f. distinct (map snd (get_feed f (updates s)))) \<and>
     (\<forall>f g. f \<noteq> g \<longrightarrow> chans f s \<inter> chans g s = {}) \<and>
     (\<forall>f. \<forall>a\<in>chans f s. a < length (heap s) \<and> \<not> closed (heap s ! a)) \<and>
     (\<exists>e. ErrorFeed (updates s) = Some e \<and> (\<forall>f. e \<notin> chans f s) \<and>
          e < length (heap s) \<and> \<not> closed (heap s ! e))"
proof (cases "ErrorFeed (updates s)")
  case None
  then show ?thesis by (simp add: wf_def)
next
  case (Some e)
  have "wf s \<longleftrightarrow>
     (\<forall>f. distinct (map fst (get_feed f (updates s)))) \<and>
     distinct (registered (updates s)) \<and> e \<notin> set (registered (updates s)) \<and>
     (\<forall>a\<in>set (registered (updates s)). a < length (heap s) \<and> \<not> closed (heap s ! a)) \<and>
     e < length (heap s) \<and> \<not> closed (heap s ! e)"
    using Some by (auto simp: wf_def list_all_iff set_all_feeds)
  then show ?thesis
    using Some by (simp add: distinct_registered set_registered) blast
qed

lemma wf_conn [simp]: "wf (s\<lparr>conn := c\<rparr>) = wf s"
  by (simp add: wf_def cong: option.case_cong)

lemma wf_keys: "wf s \<Longrightarrow> distinct (map fst (get_feed f (updates s)))"
  by (simp add: wf_iff)

lemma wf_vals: "wf s \<Longrightarrow> distinct (map snd (get_feed f (updates s)))"
  by (simp add: wf_iff)

lemma wf_disjoint: "wf s \<Longrightarrow> f \<noteq> g \<Longrightarrow> chans f s \<inter> chans g s = {}"
  by (simp add: wf_iff)

lemma wf_open: "wf s \<Longrightarrow> a \<in> chans f s \<Longrightarrow> a < length (heap s) \<and> \<not> closed (heap s ! a)"
  by (simp add: wf_iff)

lemma wf_error_feed:
  assumes "wf s"
  obtains e where "ErrorFeed (updates s) = Some e" and "\<And>f. e \<notin> chans f s"
    and "e < length (heap s)" and "\<not> closed (heap s ! e)"
proof -
  from assms have "\<exists>e. ErrorFeed (updates s) = Some e \<and> (\<forall>f. e \<notin> chans f s) \<and>
          e < length (heap s) \<and> \<not> closed (heap s ! e)"
    by (simp add: wf_iff)
  then show thesis using that by blast
qed

lemma wfI:
  assumes "\<And>f. distinct (map fst (get_feed f (updates s)))"
    and "\<And>f. distinct (map snd (get_feed f (updates s)))"
    and "\<And>f g. f \<noteq> g \<Longrightarrow> chans f s \<inter> chans g s = {}"
    and "\<And>f a. a \<in> chans f s \<Longrightarrow> a < length (heap s) \<and> \<not> closed (heap s ! a)"
    and "ErrorFeed (updates s) = Some e" and "\<And>f. e \<notin> chans f s"
    and "e < length (heap s)" and "\<not> closed (heap s ! e)"
  shows "wf s"
  unfolding wf_iff
proof (intro conjI allI impI ballI exI [of _ e])
  fix f a assume "a \<in> chans f s"
  then show "a < length (heap s)" "\<not> closed (heap s ! a)"
    using assms(4) [of a f] by simp_all
qed (use assms in simp_all)

lemma wf_new_entry:
  assumes "wf s" and "lookup f symbol s = None"
  shows "wf (s\<lparr>heap := heap s @ [new_channel],
               events := ev,
               updates := set_feed f (get_feed f (updates s) @ [(symbol, length (heap s))])
                            (updates s)\<rparr>)"
    (is "wf ?s'")
proof -
  let ?n = "length (heap s)"
  have k: "symbol \<notin> fst ` set (get_feed f (updates s))"
    using assms(2) by (simp add: lookup_def map_of_eq_None_iff)
  have n: "?n \<notin> chans g s" for g
    using wf_open [OF assms(1), of ?n g] by auto
  have gf: "get_feed g (updates ?s') =
              (if g = f then get_feed f (updates s) @ [(symbol, ?n)] else get_feed g (updates s))" for g
    by simp
  have ch: "chans g ?s' = (if g = f then insert ?n (chans f s) else chans g s)" for g
    by (auto simp: chans_def)
  from assms(1) obtain e where e: "ErrorFeed (updates s) = Some e" "\<forall>g. e \<notin> chans g s"
    "e < ?n" "\<not> closed (heap s ! e)"
    by (auto elim: wf_error_feed)
  show ?thesis
  proof (rule wfI [where e = e])
    fix g
    show "distinct (map fst (get_feed g (updates ?s')))"
      unfolding gf using wf_keys [OF assms(1), of g] k by auto
    show "distinct (map snd (get_feed g (updates ?s')))"
      unfolding gf using wf_vals [OF assms(1), of g] n [of f] by (auto simp: chans_def)
    show "e \<notin> chans g ?s'"
      unfolding ch using e(2,3) by simp
  next
    fix g h :: feed
    assume "g \<noteq> h"
    then have "chans g s \<inter> chans h s = {}"
      using wf_disjoint [OF assms(1)] by simp
    then show "chans g ?s' \<inter> chans h ?s' = {}"
      unfolding ch using n [of g] n [of h] \<open>g \<noteq> h\<close> by auto
  next
    fix g a
    assume a: "a \<in> chans g ?s'"
    show "a < length (heap ?s') \<and> \<not> closed (heap ?s' ! a)"
    proof (cases "a = ?n")
      case True
      then show ?thesis by (simp add: new_channel_def)
    next
      case False
      then have "a \<in> chans g s" using a unfolding ch by (auto split: if_splits)
      then show ?thesis using wf_open [OF assms(1), of a g] by (simp add: nth_append)
    qed
  next
    show "ErrorFeed (updates ?s') = Some e" using e(1) by simp
    show "e < length (heap ?s')" using e(3) by simp
    show "\<not> closed (heap ?s' ! e)" using e(3,4) by (simp add: nth_append)
  qed
qed

lemma wf_ensure_chan:
  assumes "wf s"
  shows "wf (ensure_chan f symbol s)"
proof (cases "lookup f symbol s")
  case (Some a)
  then show ?thesis using assms by (simp add: ensure_chan_present)
next
  case None
  then have "ensure_chan f symbol s =
      s\<lparr>heap := heap s @ [new_channel],
        events := events s @ [EvMake (length (heap s))],
        updates := set_feed f (get_feed f (updates s) @ [(symbol, length (heap s))]) (updates s)\<rparr>"
    by (simp add: ensure_chan_def lookup_def make_chan_def update_absent)
  then show ?thesis
    using wf_new_entry [OF assms None] by simp
qed

lemma delete_drops_value:
  assumes "distinct (map snd al)" and "map_of al k = Some a"
  shows "a \<notin> snd ` set (AList.delete k al)"
proof
  assume "a \<in> snd ` set (AList.delete k al)"
  then obtain k' where k': "(k', a) \<in> set al" "k' \<noteq> k"
    by (auto simp: AList.delete_eq)
  have ka: "(k, a) \<in> set al"
    using assms(2) by (rule map_of_SomeD)
  have "inj_on snd (set al)"
    using assms(1) by (simp add: distinct_map)
  then have "(k', a) = (k, a)"
    using k'(1) ka by (intro inj_onD [of snd "set al"]) simp_all
  then show False using k'(2) by simp
qed

lemma wf_torn_down:
  assumes "wf s" and "lookup f symbol s = Some a"
  shows "wf (torn_down f symbol a s)" (is "wf ?s'")
proof -
  let ?al = "get_feed f (updates s)"
  have af: "a \<in> chans f s"
    using assms(2) by (force simp: lookup_def chans_def dest: map_of_SomeD)
  have gf: "get_feed g (updates ?s') =
              (if g = f then AList.delete symbol ?al else get_feed g (updates s))" for g
    by (simp add: torn_down_def)
  have sub: "chans g ?s' \<subseteq> chans g s" for g
    unfolding chans_def gf by (auto simp: AList.delete_eq)
  have gone: "a \<notin> chans g ?s'" for g
  proof (cases "g = f")
    case True
    then show ?thesis
      unfolding chans_def gf
      using delete_drops_value [OF wf_vals [OF assms(1), of f]] assms(2)
      by (simp add: lookup_def)
  next
    case False
    then have "chans f s \<inter> chans g s = {}"
      using wf_disjoint [OF assms(1), of f g] by simp
    then show ?thesis using af sub [of g] by blast
  qed
  from assms(1) obtain e where e: "ErrorFeed (updates s) = Some e" "\<forall>g. e \<notin> chans g s"
    "e < length (heap s)" "\<not> closed (heap s ! e)"
    by (auto elim: wf_error_feed)
  have ea: "e \<noteq> a"
    using e(2) af by blast
  show ?thesis
  proof (rule wfI [where e = e])
    fix g
    show "distinct (map fst (get_feed g (updates ?s')))"
      unfolding gf using wf_keys [OF assms(1)] by (auto simp: distinct_delete)
    show "distinct (map snd (get_feed g (updates ?s')))"
      unfolding gf using wf_vals [OF assms(1)]
      by (auto simp: AList.delete_eq distinct_map_filter)
    show "e \<notin> chans g ?s'"
      using e(2) sub [of g] by blast
  next
    fix g h :: feed
    assume "g \<noteq> h"
    then have "chans g s \<inter> chans h s = {}"
      using wf_disjoint [OF assms(1)] by simp
    then show "chans g ?s' \<inter> chans h ?s' = {}"
      using sub [of g] sub [of h] by blast
  next
    fix g b
    assume b: "b \<in> chans g ?s'"
    then have "b \<noteq> a" using gone [of g] by blast
    moreover have "b \<in> chans g s" using b sub [of g] by blast
    ultimately show "b < length (heap ?s') \<and> \<not> closed (heap ?s' ! b)"
      using wf_open [OF assms(1), of b g] by (simp add: torn_down_def)
  next
    show "ErrorFeed (updates ?s') = Some e" using e(1) by (simp add: torn_down_def)
    show "e < length (heap ?s')" using e(3) by simp
    show "\<not> closed (heap ?s' ! e)" using e(4) ea by (simp add: torn_down_def)
  qed
qed

lemma wf_close_and_delete:
  assumes "wf s"
  shows "wf (snd (close_and_delete f symbol s))"
proof (cases "close_and_delete f symbol s")
  case (Pair r t)
  show ?thesis
  proof (cases r)
    case (Return x)
    then obtain a where "lookup f symbol s = Some a" "t = torn_down f symbol a s"
      using Pair by (auto simp: close_and_delete_eq_Return)
    then show ?thesis using Pair assms by (simp add: wf_torn_down)
  next
    case (Panic p)
    then have "t = s"
      using Pair
      by (auto simp: close_and_delete_def close_chan_def split: option.splits if_splits)
    then show ?thesis using Pair assms by simp
  next
    case (Parked c)
    then have "t = s"
      using Pair
      by (auto simp: close_and_delete_def close_chan_def split: option.splits if_splits)
    then show ?thesis using Pair assms by simp
  qed
qed

lemma wf_bind:
  assumes "wf (snd m)" and "\<And>x t. wf t \<Longrightarrow> wf (snd (f x t))"
  shows "wf (snd (bind m f))"
proof (cases m)
  case (Pair r t)
  then show ?thesis using assms by (cases r) simp_all
qed

lemma wf_heap_cell:
  assumes "wf s" and "closed c \<longleftrightarrow> closed (heap s ! a)"
  shows "wf (s\<lparr>heap := (heap s)[a := c]\<rparr>)"
proof -
  have "closed ((heap s)[a := c] ! b) \<longleftrightarrow> closed (heap s ! b)" if "b < length (heap s)" for b
    using that assms(2) by (cases "b = a") simp_all
  then show ?thesis
    using assms(1) by (auto simp: wf_def list_all_iff split: option.splits)
qed

lemma wf_send_chan:
  assumes "wf s"
  shows "wf (snd (send_chan c v s))"
  using assms by (auto simp: send_chan_def intro!: wf_heap_cell split: option.splits)

lemma wf_subscriptionOp:
  assumes "wf s"
  shows "wf (snd (subscriptionOp op symbol s))"
  using assms
  by (auto simp: subscriptionOp_def Call_def split: option.splits call_result.splits)

lemma wf_candlesSubscriptionOp:
  assumes "wf s"
  shows "wf (snd (candlesSubscriptionOp op symbol period s))"
  using assms
  by (auto simp: candlesSubscriptionOp_def Call_def split: option.splits call_result.splits)

lemma wf_Handle:
  assumes "wf s"
  shows "wf (snd (Handle unmarshal req s))"
  using assms
  by (auto simp: Handle_feed_of_method decode_and_send_def wf_send_chan
      split: option.splits sum.splits)

lemma wf_SubscribeTicker:
  assumes "wf s"
  shows "wf (snd (SubscribeTicker symbol s))"
  unfolding SubscribeTicker_def
  by (rule wf_bind [OF wf_subscriptionOp [OF assms]])
    (auto simp: wf_ensure_chan split: option.splits)

lemma wf_SubscribeTrades:
  assumes "wf s"
  shows "wf (snd (SubscribeTrades symbol s))"
  unfolding SubscribeTrades_def
  by (rule wf_bind [OF wf_subscriptionOp [OF assms]])
    (auto simp: wf_ensure_chan split: option.splits)

lemma wf_SubscribeOrderbook:
  assumes "wf s"
  shows "wf (snd (SubscribeOrderbook symbol s))"
  unfolding SubscribeOrderbook_def
  by (rule wf_bind [OF wf_subscriptionOp [OF assms]])
    (auto simp: wf_ensure_chan split: option.splits)

lemma wf_SubscribeCandles:
  assumes "wf s"
  shows "wf (snd (SubscribeCandles symbol period s))"
  unfolding SubscribeCandles_def
  by (rule wf_bind [OF wf_candlesSubscriptionOp [OF assms]])
    (auto simp: wf_ensure_chan split: option.splits)

lemma wf_teardown_single:
  assumes "wf t"
  shows "wf (snd (bind (close_and_delete f symbol t) (\<lambda>_ s. (Return (None :: error option), s))))"
  by (rule wf_bind [OF wf_close_and_delete [OF assms]]) simp

lemma wf_teardown_pair:
  assumes "wf t"
  shows "wf (snd (bind (close_and_delete f symbol t) (\<lambda>_ s.
               bind (close_and_delete g symbol s) (\<lambda>_ s. (Return (None :: error option), s)))))"
  by (rule wf_bind [OF wf_close_and_delete [OF assms]]) (rule wf_teardown_single)

lemma wf_UnsubscribeTicker:
  assumes "wf s"
  shows "wf (snd (UnsubscribeTicker symbol s))"
  unfolding UnsubscribeTicker_def
  by (rule wf_bind [OF wf_subscriptionOp [OF assms]])
    (auto simp: wf_teardown_single split: option.splits)

lemma wf_UnsubscribeTrades:
  assumes "wf s"
  shows "wf (snd (UnsubscribeTrades symbol s))"
  unfolding UnsubscribeTrades_def
  by (rule wf_bind [OF wf_subscriptionOp [OF assms]])
    (auto simp: wf_teardown_pair split: option.splits)

lemma wf_UnsubscribeOrderbook:
  assumes "wf s"
  shows "wf (snd (UnsubscribeOrderbook symbol s))"
  unfolding UnsubscribeOrderbook_def
  by (rule wf_bind [OF wf_subscriptionOp [OF assms]])
    (auto simp: wf_teardown_pair split: option.splits)

lemma wf_UnsubscribeCandles:
  assumes "wf s"
  shows "wf (snd (UnsubscribeCandles symbol period s))"
  unfolding UnsubscribeCandles_def
  by (rule wf_bind [OF wf_candlesSubscriptionOp [OF assms]])
    (auto simp: wf_teardown_pair split: option.splits)

lemma wf_Close:
  assumes "wf s"
  shows "wf (snd (Close s))"
proof (cases "conn s")
  case None
  then show ?thesis using assms by (simp add: Close_def conn_Close_def)
next
  case (Some cn)
  from assms obtain e where e: "ErrorFeed (updates s) = Some e"
    by (auto elim: wf_ErrorFeed)
  show ?thesis
    by (simp add: Close_good [OF Some e wf_good [OF assms e]] wf_after_reset)
qed

text \<open>
  Every client made by \<open>NewWSClient\<close> is well-formed, and every operation of the source
  keeps a well-formed client well-formed, however it ends.
\<close>

lemma wf_invariant:
  "wf (fresh_world cn)"
  "wf s \<Longrightarrow> wf (snd (Handle unmarshal req s))"
  "wf s \<Longrightarrow> wf (snd (SubscribeTicker symbol s))"
  "wf s \<Longrightarrow> wf (snd (UnsubscribeTicker symbol s))"
  "wf s \<Longrightarrow> wf (snd (SubscribeTrades symbol s))"
  "wf s \<Longrightarrow> wf (snd (UnsubscribeTrades symbol s))"
  "wf s \<Longrightarrow> wf (snd (SubscribeOrderbook symbol s))"
  "wf s \<Longrightarrow> wf (snd (UnsubscribeOrderbook symbol s))"
  "wf s \<Longrightarrow> wf (snd (SubscribeCandles symbol period s))"
  "wf s \<Longrightarrow> wf (snd (UnsubscribeCandles symbol period s))"
  "wf s \<Longrightarrow> wf (snd (Close s))"
  by (rule wf_fresh_world wf_Handle wf_SubscribeTicker wf_UnsubscribeTicker wf_SubscribeTrades
      wf_UnsubscribeTrades wf_SubscribeOrderbook wf_UnsubscribeOrderbook wf_SubscribeCandles
      wf_UnsubscribeCandles wf_Close; assumption)+

subsection \<open>A subscription that is taken back\<close>

text \<open>
  Whatever the state: when a subscribe has returned channels and the unsubscribe after it
  has returned without an error, the entries are gone and the channels are closed.
\<close>

lemma returned_channels_closed:
  "(SubscribeTicker symbol s = (Return (Inr ch), s1) \<and>
    UnsubscribeTicker symbol s1 = (Return None, s2) \<longrightarrow>
      lookup Ticker symbol s2 = None \<and> receive ch s2 = NoMoreValues) \<and>
   (SubscribeTrades symbol s = (Return (Inr (u, n)), s1) \<and>
    UnsubscribeTrades symbol s1 = (Return None, s2) \<longrightarrow>
      lookup TradesUpdate symbol s2 = None \<and> lookup TradesSnapshot symbol s2 = None \<and>
      receive u s2 = NoMoreValues \<and> receive n s2 = NoMoreValues) \<and>
   (SubscribeOrderbook symbol s = (Return (Inr (u, n)), s1) \<and>
    UnsubscribeOrderbook symbol s1 = (Return None, s2) \<longrightarrow>
      lookup OrderbookUpdate symbol s2 = None \<and> lookup OrderbookSnapshot symbol s2 = None \<and>
      receive u s2 = NoMoreValues \<and> receive n s2 = NoMoreValues) \<and>
   (SubscribeCandles symbol period s = (Return (Inr (u, n)), s1) \<and>
    UnsubscribeCandles symbol period s1 = (Return None, s2) \<longrightarrow>
      lookup CandlesUpdate symbol s2 = None \<and> lookup CandlesSnapshot symbol s2 = None \<and>
      receive u s2 = NoMoreValues \<and> receive n s2 = NoMoreValues)"
  using SubscribeTicker_Return [of symbol s ch s1] UnsubscribeTicker_Return [of symbol s1 s2]
    SubscribeTrades_Return [of symbol s u n s1] UnsubscribeTrades_Return [of symbol s1 s2]
    SubscribeOrderbook_Return [of symbol s u n s1] UnsubscribeOrderbook_Return [of symbol s1 s2]
    SubscribeCandles_Return [of symbol period s u n s1]
    UnsubscribeCandles_Return [of symbol period s1 s2]
  by (intro conjI impI) simp_all

lemma SubscribeTicker_acked:
  assumes "conn s = Some cn"
    and "respond cn ''subscribeTicker'' (WSSubscriptionRequest symbol) = CallResult True"
  shows "SubscribeTicker symbol s =
           (Return (Inr (lookup Ticker symbol
              (ensure_chan Ticker symbol
                (s\<lparr>events := events s @ [EvCall ''subscribeTicker'' (WSSubscriptionRequest symbol)]\<rparr>)))),
            ensure_chan Ticker symbol
              (s\<lparr>events := events s @ [EvCall ''subscribeTicker'' (WSSubscriptionRequest symbol)]\<rparr>))"
  using assms by (simp add: SubscribeTicker_def subscriptionOp_conn)

lemma SubscribeTrades_acked:
  assumes "conn s = Some cn"
    and "respond cn ''subscribeTrades'' (WSSubscriptionRequest symbol) = CallResult True"
  shows "\<exists>t. conn t = Some cn \<and> (wf s \<longrightarrow> wf t) \<and>
           SubscribeTrades symbol s =
             (Return (Inr (lookup TradesUpdate symbol
                             (ensure_chan TradesSnapshot symbol (ensure_chan TradesUpdate symbol t)),
                           lookup TradesSnapshot symbol
                             (ensure_chan TradesSnapshot symbol (ensure_chan TradesUpdate symbol t)))),
              ensure_chan TradesSnapshot symbol (ensure_chan TradesUpdate symbol t))"
  using assms
  by (intro exI [of _ "s\<lparr>events := events s @ [EvCall ''subscribeTrades'' (WSSubscriptionRequest symbol)]\<rparr>"])
    (simp add: SubscribeTrades_def subscriptionOp_conn)

lemma SubscribeOrderbook_acked:
  assumes "conn s = Some cn"
    and "respond cn ''subscribeOrderbook'' (WSSubscriptionRequest symbol) = CallResult True"
  shows "\<exists>t. conn t = Some cn \<and> (wf s \<longrightarrow> wf t) \<and>
           SubscribeOrderbook symbol s =
             (Return (Inr (lookup OrderbookUpdate symbol
                             (ensure_chan OrderbookSnapshot symbol (ensure_chan OrderbookUpdate symbol t)),
                           lookup OrderbookSnapshot symbol
                             (ensure_chan OrderbookSnapshot symbol (ensure_chan OrderbookUpdate symbol t)))),
              ensure_chan OrderbookSnapshot symbol (ensure_chan OrderbookUpdate symbol t))"
  using assms
  by (intro exI [of _ "s\<lparr>events := events s @ [EvCall ''subscribeOrderbook'' (WSSubscriptionRequest symbol)]\<rparr>"])
    (simp add: SubscribeOrderbook_def subscriptionOp_conn)

text \<open>
  On a well-formed client with a server that acknowledges, a subscribe returns its channels
  and the unsubscribe that follows at once returns without an error.
\<close>

lemma subscribe_then_unsubscribe_succeeds:
  assumes "wf s" and "conn s = Some cn"
  shows "respond cn ''subscribeTicker'' (WSSubscriptionRequest symbol) = CallResult True \<and>
         respond cn ''unsubscribeTicker'' (WSSubscriptionRequest symbol) = CallResult True \<longrightarrow>
           (\<exists>a. fst (SubscribeTicker symbol s) = Return (Inr (Some a))) \<and>
           fst (UnsubscribeTicker symbol (snd (SubscribeTicker symbol s))) = Return None"
    and "respond cn ''subscribeTrades'' (WSSubscriptionRequest symbol) = CallResult True \<and>
         respond cn ''unsubscribeTrades'' (WSSubscriptionRequest symbol) = CallResult True \<longrightarrow>
           (\<exists>a b. fst (SubscribeTrades symbol s) = Return (Inr (Some a, Some b))) \<and>
           fst (UnsubscribeTrades symbol (snd (SubscribeTrades symbol s))) = Return None"
    and "respond cn ''subscribeOrderbook'' (WSSubscriptionRequest symbol) = CallResult True \<and>
         respond cn ''unsubscribeOrderbook'' (WSSubscriptionRequest symbol) = CallResult True \<longrightarrow>
           (\<exists>a b. fst (SubscribeOrderbook symbol s) = Return (Inr (Some a, Some b))) \<and>
           fst (UnsubscribeOrderbook symbol (snd (SubscribeOrderbook symbol s))) = Return None"
    and "respond cn ''subscribeCandles'' (WSCandlesSubscriptionRequest symbol period) = CallResult ack \<and>
         respond cn ''unsubscribeCandles'' (WSCandlesSubscriptionRequest symbol period) = CallResult ack' \<longrightarrow>
           (\<exists>a b. fst (SubscribeCandles symbol period s) = Return (Inr (Some a, Some b))) \<and>
           fst (UnsubscribeCandles symbol period (snd (SubscribeCandles symbol period s))) = Return None"
proof -
  have pair: "fst (bind (close_and_delete f symbol (t\<lparr>events := ev\<rparr>)) (\<lambda>_ s.
                   bind (close_and_delete g symbol s)
                     (\<lambda>_ s. (Return (None :: error option), s)))) = Return None"
    if "wf t" "f \<noteq> g" "lookup f symbol t = Some a" "lookup g symbol t = Some b" for f g t ev a b
    using that by (simp add: teardown_pair_wf [of "t\<lparr>events := ev\<rparr>" f g symbol a b])
  show "respond cn ''subscribeTicker'' (WSSubscriptionRequest symbol) = CallResult True \<and>
         respond cn ''unsubscribeTicker'' (WSSubscriptionRequest symbol) = CallResult True \<longrightarrow>
           (\<exists>a. fst (SubscribeTicker symbol s) = Return (Inr (Some a))) \<and>
           fst (UnsubscribeTicker symbol (snd (SubscribeTicker symbol s))) = Return None"
  proof (intro impI, elim conjE)
    assume r: "respond cn ''subscribeTicker'' (WSSubscriptionRequest symbol) = CallResult True"
      and u: "respond cn ''unsubscribeTicker'' (WSSubscriptionRequest symbol) = CallResult True"
    define s1 where "s1 = snd (SubscribeTicker symbol s)"
    have w1: "wf s1" unfolding s1_def using assms(1) by (rule wf_SubscribeTicker)
    have c1: "conn s1 = Some cn"
      using assms(2) by (simp add: s1_def SubscribeTicker_acked [OF assms(2) r])
    obtain a where a: "lookup Ticker symbol s1 = Some a"
      by (cases "lookup Ticker symbol s1")
        (simp_all add: s1_def SubscribeTicker_acked [OF assms(2) r] lookup_ensure_chan_same
          split: option.splits)
    have "fst (SubscribeTicker symbol s) = Return (Inr (Some a))"
      using a by (simp add: s1_def SubscribeTicker_acked [OF assms(2) r])
    moreover have "fst (UnsubscribeTicker symbol s1) = Return None"
      using teardown_single_wf [of "s1\<lparr>events := ev\<rparr>" Ticker symbol a for ev] w1 a u
      by (simp add: UnsubscribeTicker_def subscriptionOp_conn [OF c1])
    ultimately show "(\<exists>a. fst (SubscribeTicker symbol s) = Return (Inr (Some a))) \<and>
           fst (UnsubscribeTicker symbol (snd (SubscribeTicker symbol s))) = Return None"
      by (auto simp: s1_def)
  qed
  show "respond cn ''subscribeTrades'' (WSSubscriptionRequest symbol) = CallResult True \<and>
         respond cn ''unsubscribeTrades'' (WSSubscriptionRequest symbol) = CallResult True \<longrightarrow>
           (\<exists>a b. fst (SubscribeTrades symbol s) = Return (Inr (Some a, Some b))) \<and>
           fst (UnsubscribeTrades symbol (snd (SubscribeTrades symbol s))) = Return None"
  proof (intro impI, elim conjE)
    assume r: "respond cn ''subscribeTrades'' (WSSubscriptionRequest symbol) = CallResult True"
      and u: "respond cn ''unsubscribeTrades'' (WSSubscriptionRequest symbol) = CallResult True"
    from SubscribeTrades_acked [OF assms(2) r] obtain t where t: "conn t = Some cn" "wf t"
      and S: "SubscribeTrades symbol s =
             (Return (Inr (lookup TradesUpdate symbol
                             (ensure_chan TradesSnapshot symbol (ensure_chan TradesUpdate symbol t)),
                           lookup TradesSnapshot symbol
                             (ensure_chan TradesSnapshot symbol (ensure_chan TradesUpdate symbol t)))),
              ensure_chan TradesSnapshot symbol (ensure_chan TradesUpdate symbol t))"
      using assms(1) by blast
    define s1 where "s1 = ensure_chan TradesSnapshot symbol (ensure_chan TradesUpdate symbol t)"
    have w1: "wf s1" and c1: "conn s1 = Some cn"
      using t by (simp_all add: s1_def wf_ensure_chan)
    obtain a b where ab: "lookup TradesUpdate symbol s1 = Some a"
      "lookup TradesSnapshot symbol s1 = Some b"
      unfolding s1_def using lookup_ensure_pair [of TradesUpdate TradesSnapshot symbol t] by auto
    have "fst (UnsubscribeTrades symbol s1) = Return None"
      using pair [OF w1 _ ab] u
      by (simp add: UnsubscribeTrades_def subscriptionOp_conn [OF c1])
    then show "(\<exists>a b. fst (SubscribeTrades symbol s) = Return (Inr (Some a, Some b))) \<and>
           fst (UnsubscribeTrades symbol (snd (SubscribeTrades symbol s))) = Return None"
      using ab by (simp add: S s1_def [symmetric])
  qed
  show "respond cn ''subscribeOrderbook'' (WSSubscriptionRequest symbol) = CallResult True \<and>
         respond cn ''unsubscribeOrderbook'' (WSSubscriptionRequest symbol) = CallResult True \<longrightarrow>
           (\<exists>a b. fst (SubscribeOrderbook symbol s) = Return (Inr (Some a, Some b))) \<and>
           fst (UnsubscribeOrderbook symbol (snd (SubscribeOrderbook symbol s))) = Return None"
  proof (intro impI, elim conjE)
    assume r: "respond cn ''subscribeOrderbook'' (WSSubscriptionRequest symbol) = CallResult True"
      and u: "respond cn ''unsubscribeOrderbook'' (WSSubscriptionRequest symbol) = CallResult True"
    from SubscribeOrderbook_acked [OF assms(2) r] obtain t where t: "conn t = Some cn" "wf t"
      and S: "SubscribeOrderbook symbol s =
             (Return (Inr (lookup OrderbookUpdate symbol
                             (ensure_chan OrderbookSnapshot symbol (ensure_chan OrderbookUpdate symbol t)),
                           lookup OrderbookSnapshot symbol
                             (ensure_chan OrderbookSnapshot symbol (ensure_chan OrderbookUpdate symbol t)))),
              ensure_chan OrderbookSnapshot symbol (ensure_chan OrderbookUpdate symbol t))"
      using assms(1) by blast
    define s1 where "s1 = ensure_chan OrderbookSnapshot symbol (ensure_chan OrderbookUpdate symbol t)"
    have w1: "wf s1" and c1: "conn s1 = Some cn"
      using t by (simp_all add: s1_def wf_ensure_chan)
    obtain a b where ab: "lookup OrderbookUpdate symbol s1 = Some a"
      "lookup OrderbookSnapshot symbol s1 = Some b"
      unfolding s1_def using lookup_ensure_pair [of OrderbookUpdate OrderbookSnapshot symbol t] by auto
    have "fst (UnsubscribeOrderbook symbol s1) = Return None"
      using pair [OF w1 _ ab] u
      by (simp add: UnsubscribeOrderbook_def subscriptionOp_conn [OF c1])
    then show "(\<exists>a b. fst (SubscribeOrderbook symbol s) = Return (Inr (Some a, Some b))) \<and>
           fst (UnsubscribeOrderbook symbol (snd (SubscribeOrderbook symbol s))) = Return None"
      using ab by (simp add: S s1_def [symmetric])
  qed
  show "respond cn ''subscribeCandles'' (WSCandlesSubscriptionRequest symbol period) = CallResult ack \<and>
         respond cn ''unsubscribeCandles'' (WSCandlesSubscriptionRequest symbol period) = CallResult ack' \<longrightarrow>
           (\<exists>a b. fst (SubscribeCandles symbol period s) = Return (Inr (Some a, Some b))) \<and>
           fst (UnsubscribeCandles symbol period (snd (SubscribeCandles symbol period s))) = Return None"
  proof (intro impI, elim conjE)
    assume r: "respond cn ''subscribeCandles'' (WSCandlesSubscriptionRequest symbol period) = CallResult ack"
      and u: "respond cn ''unsubscribeCandles'' (WSCandlesSubscriptionRequest symbol period) = CallResult ack'"
    define t where "t = s\<lparr>events := events s @ [EvCall ''subscribeCandles''
                   (WSCandlesSubscriptionRequest symbol period)]\<rparr>"
    define s1 where "s1 = ensure_chan CandlesSnapshot symbol (ensure_chan CandlesUpdate symbol t)"
    have S: "SubscribeCandles symbol period s =
               (Return (Inr (lookup CandlesUpdate symbol s1, lookup CandlesSnapshot symbol s1)), s1)"
      using SubscribeCandles_acked [OF assms(2) r] by (simp add: s1_def t_def)
    have w1: "wf s1" and c1: "conn s1 = Some cn"
      using assms by (simp_all add: s1_def t_def wf_ensure_chan)
    obtain a b where ab: "lookup CandlesUpdate symbol s1 = Some a"
      "lookup CandlesSnapshot symbol s1 = Some b"
      unfolding s1_def using lookup_ensure_pair [of CandlesUpdate CandlesSnapshot symbol t] by auto
    have "fst (UnsubscribeCandles symbol period s1) = Return None"
      using pair [OF w1 _ ab] u
      by (simp add: UnsubscribeCandles_def candlesSubscriptionOp_conn [OF c1])
    then show "(\<exists>a b. fst (SubscribeCandles symbol period s) = Return (Inr (Some a, Some b))) \<and>
           fst (UnsubscribeCandles symbol period (snd (SubscribeCandles symbol period s))) = Return None"
      using ab by (simp add: S)
  qed
qed

subsection \<open>Calls on a closed connection\<close>

text \<open>
  After \<open>Close\<close> every call comes back with \<open>ErrClosed\<close>: a subscribe returns that error,
  annotated, and makes no channel.
\<close>

lemma Call_after_Close:
  assumes "wf s" and "conn s = Some cn"
  shows "fst (Call op rq (snd (Close s))) = Return (CallError ErrClosed)"
proof -
  from assms(1) obtain e where e: "ErrorFeed (updates s) = Some e"
    by (auto elim: wf_ErrorFeed)
  show ?thesis
    by (simp add: Close_good [OF assms(2) e wf_good [OF assms(1) e]] Call_def)
qed

lemma SubscribeTicker_after_Close:
  assumes "wf s" and "conn s = Some cn"
  shows "fst (SubscribeTicker symbol (snd (Close s))) =
           Return (Inl (Annotate ErrClosed ''Hitbtc SubscribeTicker''))"
    and "updates (snd (SubscribeTicker symbol (snd (Close s)))) = updates (snd (Close s))"
    and "heap (snd (SubscribeTicker symbol (snd (Close s)))) = heap (snd (Close s))"
proof -
  from assms(1) obtain e where e: "ErrorFeed (updates s) = Some e"
    by (auto elim: wf_ErrorFeed)
  note C = Close_good [OF assms(2) e wf_good [OF assms(1) e]]
  have c: "conn (snd (Close s)) =
             Some (cn\<lparr>respond := (\<lambda>op rq. CallError ErrClosed), conn_closed := True\<rparr>)"
    by (simp add: C)
  show "fst (SubscribeTicker symbol (snd (Close s))) =
           Return (Inl (Annotate ErrClosed ''Hitbtc SubscribeTicker''))"
    and "updates (snd (SubscribeTicker symbol (snd (Close s)))) = updates (snd (Close s))"
    and "heap (snd (SubscribeTicker symbol (snd (Close s)))) = heap (snd (Close s))"
    by (simp_all add: SubscribeTicker_def subscriptionOp_conn [OF c])
qed

section \<open>Unknown methods\<close>

text \<open>
  Claim C8. A message whose method is none of the seven notification methods makes
  \<open>Handle\<close> return at once with the state as it was: nothing is sent on a subscriber
  channel or on the error feed, nothing is logged, nothing panics.
\<close>

theorem unknown_method_ignored:
  assumes "Method req \<notin> {''ticker'', ''snapshotOrderbook'', ''updateOrderbook'',
      ''snapshotTrades'', ''updateTrades'', ''snapshotCandles'', ''updateCandles''}"
  shows "Handle unmarshal req s = (Return (), s)"
  using assms by (simp add: Handle_def split: option.splits)

theorem unknown_method_ignored_witness:
  "''heartbeat'' \<notin> {''ticker'', ''snapshotOrderbook'', ''updateOrderbook'',
      ''snapshotTrades'', ''updateTrades'', ''snapshotCandles'', ''updateCandles''} \<and>
   Handle echo_unmarshal \<lparr>Method = ''heartbeat'', Params = Some ''ETHBTC''\<rparr>
     (fresh_world (ack_conn True)) = (Return (), fresh_world (ack_conn True))"
  using unknown_method_ignored
    [of "\<lparr>Method = ''heartbeat'', Params = Some ''ETHBTC''\<rparr>" echo_unmarshal
        "fresh_world (ack_conn True)"]
  by simp

section \<open>A nil connection\<close>

text \<open>
  Claim C10. With a nil connection the ticker, trades and order-book operations return
  the error "Connection is unitialized" (annotated with the operation), issue no call
  and leave the state as it was. The two candles operations have no such check: they go
  straight into the call on the nil connection, which is a nil pointer dereference.
\<close>

theorem nil_connection:
  assumes "conn s = None"
  shows "SubscribeTicker symbol s =
           (Return (Inl (Annotate (New ''Connection is unitialized'') ''Hitbtc SubscribeTicker'')), s) \<and>
         UnsubscribeTicker symbol s =
           (Return (Some (Annotate (New ''Connection is unitialized'') ''Hitbtc UnsubscribeTicker'')), s) \<and>
         SubscribeTrades symbol s =
           (Return (Inl (Annotate (New ''Connection is unitialized'') ''Hitbtc SubscribeTrades'')), s) \<and>
         UnsubscribeTrades symbol s =
           (Return (Some (Annotate (New ''Connection is unitialized'') ''Hitbtc UnsubscribeTrades'')), s) \<and>
         SubscribeOrderbook symbol s =
           (Return (Inl (Annotate (New ''Connection is unitialized'') ''Hitbtc SubscribeOrderbook'')), s) \<and>
         UnsubscribeOrderbook symbol s =
           (Return (Some (Annotate (New ''Connection is unitialized'') ''Hitbtc UnsubscribeOrderbook'')), s) \<and>
         SubscribeCandles symbol period s =
           (Panic ''invalid memory address or nil pointer dereference'', s) \<and>
         UnsubscribeCandles symbol period s =
           (Panic ''invalid memory address or nil pointer dereference'', s)"
  using assms
  by (simp add: SubscribeTicker_def UnsubscribeTicker_def SubscribeTrades_def
      UnsubscribeTrades_def SubscribeOrderbook_def UnsubscribeOrderbook_def
      SubscribeCandles_def UnsubscribeCandles_def subscriptionOp_def
      candlesSubscriptionOp_def Call_def)

theorem nil_connection_witness:
  "conn nil_conn_world = None \<and>
   SubscribeTicker ''ETHBTC'' nil_conn_world =
     (Return (Inl (Annotate (New ''Connection is unitialized'') ''Hitbtc SubscribeTicker'')),
      nil_conn_world) \<and>
   UnsubscribeOrderbook ''ETHBTC'' nil_conn_world =
     (Return (Some (Annotate (New ''Connection is unitialized'') ''Hitbtc UnsubscribeOrderbook'')),
      nil_conn_world) \<and>
   SubscribeCandles ''ETHBTC'' Interval1Hour nil_conn_world =
     (Panic ''invalid memory address or nil pointer dereference'', nil_conn_world) \<and>
   events nil_conn_world = [EvMake 0]"
  using nil_connection [of nil_conn_world "''ETHBTC''" Interval1Hour]
  by (simp add: nil_conn_world_def fresh_world_def)

section \<open>Notifications for a symbol nobody subscribed to\<close>

text \<open>
  Claim C3 says that a decoded notification whose symbol has no channel is dropped and
  the handler completes. On a fresh client a ticker notification for ETHBTC finds no
  channel, and the handler does not return: it is parked on the nil channel.
\<close>

theorem orphan_delivery_counterexample:
  "lookup Ticker ''ETHBTC'' (fresh_world (ack_conn True)) = None \<and>
   echo_unmarshal Ticker ''ETHBTC'' = Inr \<lparr>Symbol = ''ETHBTC'', Body = ''ETHBTC''\<rparr> \<and>
   Handle echo_unmarshal \<lparr>Method = ''ticker'', Params = Some ''ETHBTC''\<rparr>
     (fresh_world (ack_conn True)) = (Parked None, fresh_world (ack_conn True))"
  by (simp add: Handle_def decode_and_send_def send_chan_def lookup_def echo_unmarshal_def fresh_world_def)

text \<open>
  Claim C3, amended. \<open>Handle\<close> has no check for an absent key in any of its seven cases.
  For a recognized method whose payload decodes and whose symbol has no channel in the
  feed of that method, the handler neither panics nor changes anything (nothing appears
  on any channel), but it does not complete either: the send on the nil channel parks it
  for ever.
\<close>

theorem orphan_delivery_parks:
  assumes "Params req = Some message"
    and "feed_of_method (Method req) = Some f"
    and "unmarshal f message = Inr msg"
    and "lookup f (Symbol msg) s = None"
  shows "Handle unmarshal req s = (Parked None, s)"
  using assms by (simp add: Handle_feed_of_method decode_and_send_def send_chan_def lookup_def)

theorem orphan_delivery_parks_witness:
  "Handle echo_unmarshal \<lparr>Method = ''updateTrades'', Params = Some ''ETHBTC''\<rparr> ticker_world
     = (Parked None, ticker_world)"
  using orphan_delivery_parks [of "\<lparr>Method = ''updateTrades'', Params = Some ''ETHBTC''\<rparr>"
      "''ETHBTC''" TradesUpdate echo_unmarshal "\<lparr>Symbol = ''ETHBTC'', Body = ''ETHBTC''\<rparr>" ticker_world]
  by (simp add: feed_of_method_def echo_unmarshal_def lookup_def ticker_world_simp)

section \<open>Payloads that do not decode\<close>

text \<open>
  Claim C9. For a recognized method whose payload fails to decode, the only thing
  \<open>Handle\<close> does is the send of the decode error on the error feed: the error is handed
  over when a consumer is receiving there, and the handler waits on the error feed
  otherwise. It never panics, the error feed is none of the subscriber channels, and no
  subscriber channel and no feed map changes.
\<close>

theorem decode_error_to_error_feed:
  assumes "wf s"
    and "Params req = Some message"
    and "feed_of_method (Method req) = Some f"
    and "unmarshal f message = Inl err"
  shows "\<exists>e. ErrorFeed (updates s) = Some e \<and> e \<notin> set (registered (updates s)) \<and>
           Handle unmarshal req s =
             (if receivers (heap s ! e) = 0 then (Parked (Some e), s)
              else (Return (),
                    s\<lparr>heap := (heap s)[e := (heap s ! e)
                                 \<lparr>receivers := receivers (heap s ! e) - 1,
                                  delivered := delivered (heap s ! e) @ [Failure err]\<rparr>],
                      events := events s @ [EvSend e (Failure err)]\<rparr>)) \<and>
           updates (snd (Handle unmarshal req s)) = updates s \<and>
           (\<forall>a\<in>set (registered (updates s)).
              heap (snd (Handle unmarshal req s)) ! a = heap s ! a)"
proof -
  from \<open>wf s\<close> obtain e where e: "ErrorFeed (updates s) = Some e"
    "e \<notin> set (registered (updates s))" "e < length (heap s)" "\<not> closed (heap s ! e)"
    by (rule wf_ErrorFeed)
  have H: "Handle unmarshal req s = send_chan (Some e) (Failure err) s"
    using assms(2-4) e(1) by (simp add: Handle_feed_of_method decode_and_send_def)
  show ?thesis
    using e by (auto simp: H send_chan_def nth_list_update)
qed

theorem decode_error_to_error_feed_witness:
  "wf listening_world \<and>
   fst (Handle echo_unmarshal \<lparr>Method = ''ticker'', Params = Some ''''\<rparr> listening_world) = Return () \<and>
   delivered (heap (snd (Handle echo_unmarshal \<lparr>Method = ''ticker'', Params = Some ''''\<rparr> listening_world)) ! 0)
     = [Failure (New ''unexpected end of JSON input'')] \<and>
   heap (snd (Handle echo_unmarshal \<lparr>Method = ''ticker'', Params = Some ''''\<rparr> listening_world)) ! 1
     = heap listening_world ! 1"
proof -
  have w: "wf listening_world"
    by (rule wf_listening_world)
  show ?thesis
    using decode_error_to_error_feed [OF w, of "\<lparr>Method = ''ticker'', Params = Some ''''\<rparr>" "''''"
      Ticker echo_unmarshal "New ''unexpected end of JSON input''"] w
    by (simp add: feed_of_method_def echo_unmarshal_def listening_world_def ticker_world_simp new_channel_def
        registered_def all_feeds_def)
qed

section \<open>Unsubscribing what was never subscribed\<close>

text \<open>
  Claim C2 says that unsubscribing a symbol that was never subscribed is a silent no-op.
  On a fresh client, with a server that acknowledges, \<open>UnsubscribeTicker\<close> panics.
\<close>

theorem unsubscribe_absent_counterexample:
  "lookup Ticker ''ETHBTC'' (fresh_world (ack_conn True)) = None \<and>
   respond (ack_conn True) ''unsubscribeTicker'' (WSSubscriptionRequest ''ETHBTC'') = CallResult True \<and>
   fst (UnsubscribeTicker ''ETHBTC'' (fresh_world (ack_conn True))) = Panic ''close of nil channel''"
  by (simp add: UnsubscribeTicker_def subscriptionOp_def Call_def close_and_delete_def
      close_chan_def lookup_def fresh_world_def ack_conn_def)

text \<open>
  Claim C2, amended. None of the four unsubscribe operations checks that the key is
  present. For a symbol with no entry, once the server has acknowledged the request (for
  candles: once the call has come back, whatever the acknowledgment), the operation
  returns no error and changes neither the feed maps nor any channel, but it does not
  return normally: \<^verbatim>\<open>close\<close> of the nil channel read from the map panics.
\<close>

theorem unsubscribe_absent_panics:
  assumes "conn s = Some cn"
  shows "(respond cn ''unsubscribeTicker'' (WSSubscriptionRequest symbol) = CallResult True \<and>
          lookup Ticker symbol s = None \<longrightarrow>
          UnsubscribeTicker symbol s =
            (Panic ''close of nil channel'',
             s\<lparr>events := events s @ [EvCall ''unsubscribeTicker'' (WSSubscriptionRequest symbol)]\<rparr>)) \<and>
         (respond cn ''unsubscribeTrades'' (WSSubscriptionRequest symbol) = CallResult True \<and>
          lookup TradesUpdate symbol s = None \<and> lookup TradesSnapshot symbol s = None \<longrightarrow>
          UnsubscribeTrades symbol s =
            (Panic ''close of nil channel'',
             s\<lparr>events := events s @ [EvCall ''unsubscribeTrades'' (WSSubscriptionRequest symbol)]\<rparr>)) \<and>
         (respond cn ''unsubscribeOrderbook'' (WSSubscriptionRequest symbol) = CallResult True \<and>
          lookup OrderbookUpdate symbol s = None \<and> lookup OrderbookSnapshot symbol s = None \<longrightarrow>
          UnsubscribeOrderbook symbol s =
            (Panic ''close of nil channel'',
             s\<lparr>events := events s @ [EvCall ''unsubscribeOrderbook'' (WSSubscriptionRequest symbol)]\<rparr>)) \<and>
         (respond cn ''unsubscribeCandles'' (WSCandlesSubscriptionRequest symbol period) = CallResult ack \<and>
          lookup CandlesUpdate symbol s = None \<and> lookup CandlesSnapshot symbol s = None \<longrightarrow>
          UnsubscribeCandles symbol period s =
            (Panic ''close of nil channel'',
             s\<lparr>events := events s @
                [EvCall ''unsubscribeCandles'' (WSCandlesSubscriptionRequest symbol period)]\<rparr>))"
  using assms
  by (simp add: UnsubscribeTicker_def UnsubscribeTrades_def UnsubscribeOrderbook_def
      UnsubscribeCandles_def subscriptionOp_conn candlesSubscriptionOp_conn
      close_and_delete_absent)

theorem unsubscribe_absent_panics_witness:
  "fst (UnsubscribeTicker ''BTCUSD'' ticker_world) = Panic ''close of nil channel'' \<and>
   fst (UnsubscribeTrades ''ETHBTC'' ticker_world) = Panic ''close of nil channel'' \<and>
   fst (UnsubscribeOrderbook ''ETHBTC'' ticker_world) = Panic ''close of nil channel'' \<and>
   fst (UnsubscribeCandles ''ETHBTC'' Interval1Hour ticker_world) = Panic ''close of nil channel'' \<and>
   updates (snd (UnsubscribeTicker ''BTCUSD'' ticker_world)) = updates ticker_world \<and>
   heap (snd (UnsubscribeTicker ''BTCUSD'' ticker_world)) = heap ticker_world"
  using unsubscribe_absent_panics [of ticker_world "ack_conn True" "''BTCUSD''" Interval1Hour True]
    unsubscribe_absent_panics [of ticker_world "ack_conn True" "''ETHBTC''" Interval1Hour True]
  by (simp add: ticker_world_simp lookup_def ack_conn_def)

section \<open>Rejected subscriptions\<close>

text \<open>
  Claim C1 at the candles feed. The server answers \<^verbatim>\<open>false\<close> to \<^verbatim>\<open>subscribeCandles\<close>;
  \<open>SubscribeCandles\<close> returns two channels and no error, and both feed maps have a new
  entry for the symbol: \<open>candlesSubscriptionOp\<close> never reads the acknowledgment.
\<close>

theorem candles_subscribe_ignores_rejection:
  "respond (ack_conn False) ''subscribeCandles''
     (WSCandlesSubscriptionRequest ''BTCUSD'' Interval1Hour) = CallResult False \<and>
   lookup CandlesUpdate ''BTCUSD'' (fresh_world (ack_conn False)) = None \<and>
   lookup CandlesSnapshot ''BTCUSD'' (fresh_world (ack_conn False)) = None \<and>
   fst (SubscribeCandles ''BTCUSD'' Interval1Hour (fresh_world (ack_conn False)))
     = Return (Inr (Some 1, Some 2)) \<and>
   lookup CandlesUpdate ''BTCUSD''
     (snd (SubscribeCandles ''BTCUSD'' Interval1Hour (fresh_world (ack_conn False)))) = Some 1 \<and>
   lookup CandlesSnapshot ''BTCUSD''
     (snd (SubscribeCandles ''BTCUSD'' Interval1Hour (fresh_world (ack_conn False)))) = Some 2"
  by (simp add: SubscribeCandles_def candlesSubscriptionOp_def Call_def fresh_world_def
      ack_conn_def ensure_chan_def make_chan_def lookup_def)

text \<open>
  The three operations that go through \<open>subscriptionOp\<close> do what the claim says: on the
  acknowledgment \<^verbatim>\<open>false\<close> they return the annotated error and only the call is logged.
\<close>

lemma rejected_subscription_guarded:
  assumes "conn s = Some cn"
  shows "(respond cn ''subscribeTicker'' (WSSubscriptionRequest symbol) = CallResult False \<longrightarrow>
          SubscribeTicker symbol s =
            (Return (Inl (Annotate (New ''Subscribe not successful'') ''Hitbtc SubscribeTicker'')),
             s\<lparr>events := events s @ [EvCall ''subscribeTicker'' (WSSubscriptionRequest symbol)]\<rparr>)) \<and>
         (respond cn ''subscribeTrades'' (WSSubscriptionRequest symbol) = CallResult False \<longrightarrow>
          SubscribeTrades symbol s =
            (Return (Inl (Annotate (New ''Subscribe not successful'') ''Hitbtc SubscribeTrades'')),
             s\<lparr>events := events s @ [EvCall ''subscribeTrades'' (WSSubscriptionRequest symbol)]\<rparr>)) \<and>
         (respond cn ''subscribeOrderbook'' (WSSubscriptionRequest symbol) = CallResult False \<longrightarrow>
          SubscribeOrderbook symbol s =
            (Return (Inl (Annotate (New ''Subscribe not successful'') ''Hitbtc SubscribeOrderbook'')),
             s\<lparr>events := events s @ [EvCall ''subscribeOrderbook'' (WSSubscriptionRequest symbol)]\<rparr>))"
  using assms
  by (simp add: SubscribeTicker_def SubscribeTrades_def SubscribeOrderbook_def subscriptionOp_conn)

section \<open>Subscribing candles twice\<close>

text \<open>
  Claim C7 says that the channels of a second candles subscription, with another period,
  replace those of the first. After the 1-hour subscription for BTCUSD the 30-minute one
  returns the very same two channels, and the feed maps and the heap stay as they were.
\<close>

theorem resubscribe_candles_counterexample:
  "Interval30Minutes \<noteq> Interval1Hour \<and>
   SubscribeCandles ''BTCUSD'' Interval1Hour (fresh_world (ack_conn True))
     = (Return (Inr (Some 1, Some 2)), candles_world) \<and>
   fst (SubscribeCandles ''BTCUSD'' Interval30Minutes candles_world)
     = Return (Inr (Some 1, Some 2)) \<and>
   updates (snd (SubscribeCandles ''BTCUSD'' Interval30Minutes candles_world))
     = updates candles_world \<and>
   heap (snd (SubscribeCandles ''BTCUSD'' Interval30Minutes candles_world))
     = heap candles_world"
  by (simp add: candles_world_simp SubscribeCandles_def candlesSubscriptionOp_def Call_def
      fresh_world_def ack_conn_def ensure_chan_def make_chan_def lookup_def Interval1Hour_def
      Interval30Minutes_def)

text \<open>
  Claim C7, amended. \<open>SubscribeCandles\<close> makes a channel only where the map has none
  (\<^verbatim>\<open>if ... == nil\<close>). When both calls come back without a transport error, the second
  subscription of a symbol, whatever its period, returns the same pair of channels as the
  first and leaves the feed maps and the heap unchanged: there is one pair of channels per
  symbol, shared by all periods, and nothing is replaced.
\<close>

theorem resubscribe_candles_same_channels:
  assumes "conn s = Some cn"
    and "respond cn ''subscribeCandles'' (WSCandlesSubscriptionRequest symbol p1) = CallResult ack1"
    and "respond cn ''subscribeCandles'' (WSCandlesSubscriptionRequest symbol p2) = CallResult ack2"
    and "SubscribeCandles symbol p1 s = (r1, s1)"
    and "SubscribeCandles symbol p2 s1 = (r2, s2)"
  shows "\<exists>u n. r1 = Return (Inr (Some u, Some n)) \<and> r2 = r1 \<and>
           updates s2 = updates s1 \<and> heap s2 = heap s1"
proof -
  define t where "t = s\<lparr>events := events s @ [EvCall ''subscribeCandles''
                   (WSCandlesSubscriptionRequest symbol p1)]\<rparr>"
  have s1: "s1 = ensure_chan CandlesSnapshot symbol (ensure_chan CandlesUpdate symbol t)"
    and r1: "r1 = Return (Inr (lookup CandlesUpdate symbol s1, lookup CandlesSnapshot symbol s1))"
    using SubscribeCandles_acked [OF assms(1,2)] assms(4) by (simp_all add: t_def)
  obtain u n where un: "lookup CandlesUpdate symbol s1 = Some u"
    "lookup CandlesSnapshot symbol s1 = Some n"
    unfolding s1 using lookup_ensure_pair [of CandlesUpdate CandlesSnapshot symbol t] by auto
  have c1: "conn s1 = Some cn"
    using assms(1) by (simp add: s1 t_def)
  define t' where "t' = s1\<lparr>events := events s1 @ [EvCall ''subscribeCandles''
                   (WSCandlesSubscriptionRequest symbol p2)]\<rparr>"
  have e: "ensure_chan CandlesSnapshot symbol (ensure_chan CandlesUpdate symbol t') = t'"
    using un by (simp add: ensure_chan_present t'_def)
  have "s2 = t'" and "r2 = Return (Inr (lookup CandlesUpdate symbol t', lookup CandlesSnapshot symbol t'))"
    using SubscribeCandles_acked [OF c1 assms(3)] assms(5) by (simp_all add: t'_def [symmetric] e)
  then show ?thesis
    using un r1 by (simp add: t'_def)
qed

theorem resubscribe_candles_same_channels_witness:
  "fst (SubscribeCandles ''BTCUSD'' Interval30Minutes
          (snd (SubscribeCandles ''BTCUSD'' Interval1Hour ticker_world)))
     = fst (SubscribeCandles ''BTCUSD'' Interval1Hour ticker_world) \<and>
   fst (SubscribeCandles ''BTCUSD'' Interval1Hour ticker_world)
     = Return (Inr (Some 2, Some 3))"
  using resubscribe_candles_same_channels [of ticker_world "ack_conn True" "''BTCUSD''"
      Interval1Hour True Interval30Minutes True
      "fst (SubscribeCandles ''BTCUSD'' Interval1Hour ticker_world)"
      "snd (SubscribeCandles ''BTCUSD'' Interval1Hour ticker_world)"
      "fst (SubscribeCandles ''BTCUSD'' Interval30Minutes
          (snd (SubscribeCandles ''BTCUSD'' Interval1Hour ticker_world)))"
      "snd (SubscribeCandles ''BTCUSD'' Interval30Minutes
          (snd (SubscribeCandles ''BTCUSD'' Interval1Hour ticker_world)))"]
  by (simp add: ticker_world_simp ack_conn_def SubscribeCandles_def candlesSubscriptionOp_def Call_def
      ensure_chan_def make_chan_def lookup_def)

section \<open>Close\<close>

text \<open>
  Claim C6. On a well-formed client with a connection, one call of \<open>Close\<close> returns
  without a panic. Its effects, in order: the transport is closed first, then every
  channel held by the seven feed maps is closed, feed by feed, then the error feed is
  closed, last of all, and a fresh channel is made for it. Every channel is closed once
  (no channel is held twice), and afterwards all seven feed maps are empty, the error
  feed is the fresh open channel, and the client is well-formed again.
\<close>

theorem Close_closes_everything:
  assumes "wf s" and "conn s = Some cn"
  shows "\<exists>e. ErrorFeed (updates s) = Some e \<and>
           fst (Close s) = Return () \<and>
           conn (snd (Close s)) =
             Some (cn\<lparr>respond := (\<lambda>op rq. CallError ErrClosed), conn_closed := True\<rparr>) \<and>
           events (snd (Close s)) =
             events s @ [EvConnClose] @ map EvClose (registered (updates s)) @
             [EvClose e, EvMake (length (heap s))] \<and>
           distinct (registered (updates s) @ [e]) \<and>
           (\<forall>a\<in>set (registered (updates s) @ [e]). closed (heap (snd (Close s)) ! a)) \<and>
           (\<forall>f. get_feed f (updates (snd (Close s))) = []) \<and>
           ErrorFeed (updates (snd (Close s))) = Some (length (heap s)) \<and>
           heap (snd (Close s)) ! length (heap s) = new_channel \<and>
           wf (snd (Close s))"
proof -
  from \<open>wf s\<close> obtain e where e: "ErrorFeed (updates s) = Some e"
    by (auto simp: wf_def split: option.splits)
  have g: "good (registered (updates s) @ [e]) s"
    using assms(1) e by (rule wf_good)
  have d: "distinct (registered (updates s) @ [e])"
    and r: "\<forall>a\<in>set (registered (updates s) @ [e]). a < length (heap s)"
    using g by (simp_all add: good_def list_all_iff)
  note C = Close_good [OF assms(2) e g]
  have cl: "closed (heap (snd (Close s)) ! a)" if "a \<in> set (registered (updates s) @ [e])" for a
  proof -
    have "a < length (heap s)" using r that by blast
    then show ?thesis
      using that close_cells_closed [of a "registered (updates s) @ [e]" "heap s"]
      by (simp add: C closed_world_def nth_append)
  qed
  have n: "heap (snd (Close s)) ! length (heap s) = new_channel"
    by (simp add: C closed_world_def nth_append)
  show ?thesis
    using e d cl n by (simp add: C wf_after_reset closed_world_def del: get_feed.simps)
qed

theorem Close_closes_everything_witness:
  "wf busy_world \<and> conn busy_world = Some (ack_conn True) \<and>
   fst (Close busy_world) = Return () \<and>
   events (snd (Close busy_world)) =
     events busy_world @
     [EvConnClose, EvClose 1, EvClose 2, EvClose 4, EvClose 3, EvClose 5, EvClose 0, EvMake 6] \<and>
   map closed (heap (snd (Close busy_world))) = [True, True, True, True, True, True, False] \<and>
   registered (updates (snd (Close busy_world))) = [] \<and>
   ErrorFeed (updates (snd (Close busy_world))) = Some 6"
proof -
  have c: "conn busy_world = Some (ack_conn True)"
    by (simp add: busy_world_simp)
  have h: "map closed (heap (snd (Close busy_world))) = [True, True, True, True, True, True, False]"
    by (simp add: busy_world_simp Close_def conn_Close_def close_feed_def close_chan_def
        reset_feeds_def remake_ErrorFeed_def make_chan_def new_channel_def)
  have r: "registered (updates busy_world) = [1, 2, 4, 3, 5]"
    and e: "ErrorFeed (updates busy_world) = Some 0"
    and l: "length (heap busy_world) = 6"
    by (simp_all add: busy_world_simp registered_def all_feeds_def)
  from Close_closes_everything [OF wf_busy_world c] obtain e0 where
    E: "ErrorFeed (updates busy_world) = Some e0"
      "fst (Close busy_world) = Return ()"
      "events (snd (Close busy_world)) =
         events busy_world @ [EvConnClose] @ map EvClose (registered (updates busy_world)) @
         [EvClose e0, EvMake (length (heap busy_world))]"
      "\<forall>f. get_feed f (updates (snd (Close busy_world))) = []"
      "ErrorFeed (updates (snd (Close busy_world))) = Some (length (heap busy_world))"
    by (elim exE conjE)
  have e0: "e0 = 0"
    using E(1) e by simp
  have "registered (updates (snd (Close busy_world))) = []"
    using E(4) by (simp add: registered_def all_feeds_def del: get_feed.simps)
  then show ?thesis
    using wf_busy_world c h E(2,3,5) by (simp add: r e0 l)
qed

section \<open>Unsubscribing after the acknowledgment\<close>

text \<open>
  Claim C4 says that an unsubscribe whose call came back without a transport error closes
  the channels and returns no error, whatever the acknowledgment. The ticker channel of
  ETHBTC is registered and open, the server answers \<^verbatim>\<open>false\<close> to \<^verbatim>\<open>unsubscribeTicker\<close>:
  \<open>UnsubscribeTicker\<close> returns an error, the entry stays and the channel stays open.
\<close>

theorem unsubscribe_after_ack_counterexample:
  "respond sticky_conn ''unsubscribeTicker'' (WSSubscriptionRequest ''ETHBTC'') = CallResult False \<and>
   lookup Ticker ''ETHBTC'' sticky_world = Some 1 \<and>
   fst (UnsubscribeTicker ''ETHBTC'' sticky_world) =
     Return (Some (Annotate (New ''Subscribe not successful'') ''Hitbtc UnsubscribeTicker'')) \<and>
   lookup Ticker ''ETHBTC'' (snd (UnsubscribeTicker ''ETHBTC'' sticky_world)) = Some 1 \<and>
   receive (Some 1) (snd (UnsubscribeTicker ''ETHBTC'' sticky_world)) = Waits"
  by (simp add: sticky_world_simp sticky_conn_def UnsubscribeTicker_def subscriptionOp_def
      Call_def lookup_def receive_def new_channel_def)

text \<open>
  Claim C4, amended. \<open>subscriptionOp\<close> serves subscribe and unsubscribe alike and turns
  the acknowledgment \<^verbatim>\<open>false\<close> into the error "Subscribe not successful". On a well-formed
  client whose channels for the symbol are registered, when the call comes back without a
  transport error: \<open>UnsubscribeCandles\<close> closes both channels, deletes both entries and
  returns no error whatever the acknowledgment; the ticker, trades and order-book
  operations do so when the acknowledgment is \<^verbatim>\<open>true\<close>, and when it is \<^verbatim>\<open>false\<close> they
  return that error, annotated, and leave the feed maps and the channels as they were.
\<close>

theorem unsubscribe_after_ack:
  assumes "wf s" and "conn s = Some cn"
  shows "(respond cn ''unsubscribeTicker'' (WSSubscriptionRequest symbol) = CallResult ack \<and>
          lookup Ticker symbol s = Some a \<longrightarrow>
            (if ack
             then fst (UnsubscribeTicker symbol s) = Return None \<and>
                  lookup Ticker symbol (snd (UnsubscribeTicker symbol s)) = None \<and>
                  receive (Some a) (snd (UnsubscribeTicker symbol s)) = NoMoreValues
             else UnsubscribeTicker symbol s =
                  (Return (Some (Annotate (New ''Subscribe not successful'')
                                   ''Hitbtc UnsubscribeTicker'')),
                   s\<lparr>events := events s @
                       [EvCall ''unsubscribeTicker'' (WSSubscriptionRequest symbol)]\<rparr>))) \<and>
         (respond cn ''unsubscribeTrades'' (WSSubscriptionRequest symbol) = CallResult ack \<and>
          lookup TradesUpdate symbol s = Some a \<and> lookup TradesSnapshot symbol s = Some b \<longrightarrow>
            (if ack
             then fst (UnsubscribeTrades symbol s) = Return None \<and>
                  lookup TradesUpdate symbol (snd (UnsubscribeTrades symbol s)) = None \<and>
                  lookup TradesSnapshot symbol (snd (UnsubscribeTrades symbol s)) = None \<and>
                  receive (Some a) (snd (UnsubscribeTrades symbol s)) = NoMoreValues \<and>
                  receive (Some b) (snd (UnsubscribeTrades symbol s)) = NoMoreValues
             else UnsubscribeTrades symbol s =
                  (Return (Some (Annotate (New ''Subscribe not successful'')
                                   ''Hitbtc UnsubscribeTrades'')),
                   s\<lparr>events := events s @
                       [EvCall ''unsubscribeTrades'' (WSSubscriptionRequest symbol)]\<rparr>))) \<and>
         (respond cn ''unsubscribeOrderbook'' (WSSubscriptionRequest symbol) = CallResult ack \<and>
          lookup OrderbookUpdate symbol s = Some a \<and> lookup OrderbookSnapshot symbol s = Some b \<longrightarrow>
            (if ack
             then fst (UnsubscribeOrderbook symbol s) = Return None \<and>
                  lookup OrderbookUpdate symbol (snd (UnsubscribeOrderbook symbol s)) = None \<and>
                  lookup OrderbookSnapshot symbol (snd (UnsubscribeOrderbook symbol s)) = None \<and>
                  receive (Some a) (snd (UnsubscribeOrderbook symbol s)) = NoMoreValues \<and>
                  receive (Some b) (snd (UnsubscribeOrderbook symbol s)) = NoMoreValues
             else UnsubscribeOrderbook symbol s =
                  (Return (Some (Annotate (New ''Subscribe not successful'')
                                   ''Hitbtc UnsubscribeOrderbook'')),
                   s\<lparr>events := events s @
                       [EvCall ''unsubscribeOrderbook'' (WSSubscriptionRequest symbol)]\<rparr>))) \<and>
         (respond cn ''unsubscribeCandles'' (WSCandlesSubscriptionRequest symbol period)
            = CallResult ack \<and>
          lookup CandlesUpdate symbol s = Some a \<and> lookup CandlesSnapshot symbol s = Some b \<longrightarrow>
            fst (UnsubscribeCandles symbol period s) = Return None \<and>
            lookup CandlesUpdate symbol (snd (UnsubscribeCandles symbol period s)) = None \<and>
            lookup CandlesSnapshot symbol (snd (UnsubscribeCandles symbol period s)) = None \<and>
            receive (Some a) (snd (UnsubscribeCandles symbol period s)) = NoMoreValues \<and>
            receive (Some b) (snd (UnsubscribeCandles symbol period s)) = NoMoreValues)"
proof -
  have single: "close_and_delete f symbol (s\<lparr>events := ev\<rparr>)
                  = (Return (), torn_down f symbol a (s\<lparr>events := ev\<rparr>))"
    if "lookup f symbol s = Some a" for f ev
    using that assms(1) by (intro teardown_single_wf) simp_all
  have pair: "bind (close_and_delete f symbol (s\<lparr>events := ev\<rparr>)) (\<lambda>_ s.
              bind (close_and_delete g symbol s) (\<lambda>_ s. (Return None, s)))
                = (Return None, torn_down g symbol b (torn_down f symbol a (s\<lparr>events := ev\<rparr>)))"
    if "f \<noteq> g" "lookup f symbol s = Some a" "lookup g symbol s = Some b" for f g ev
    using that assms(1) by (intro teardown_pair_wf) simp_all
  have ra: "a < length (heap s)" if "lookup f symbol s = Some a" for f
    using wf_lookup [OF assms(1) that] by simp
  have rb: "b < length (heap s)" if "lookup f symbol s = Some b" for f
    using wf_lookup [OF assms(1) that] by simp
  have t1: "respond cn ''unsubscribeTicker'' (WSSubscriptionRequest symbol) = CallResult ack \<and>
          lookup Ticker symbol s = Some a \<longrightarrow>
            (if ack
             then fst (UnsubscribeTicker symbol s) = Return None \<and>
                  lookup Ticker symbol (snd (UnsubscribeTicker symbol s)) = None \<and>
                  receive (Some a) (snd (UnsubscribeTicker symbol s)) = NoMoreValues
             else UnsubscribeTicker symbol s =
                  (Return (Some (Annotate (New ''Subscribe not successful'')
                                   ''Hitbtc UnsubscribeTicker'')),
                   s\<lparr>events := events s @
                       [EvCall ''unsubscribeTicker'' (WSSubscriptionRequest symbol)]\<rparr>))"
    using ra [of Ticker]
    by (simp add: UnsubscribeTicker_def subscriptionOp_conn [OF assms(2)] single
        receive_torn_down_same)
  have t2: "respond cn ''unsubscribeTrades'' (WSSubscriptionRequest symbol) = CallResult ack \<and>
          lookup TradesUpdate symbol s = Some a \<and> lookup TradesSnapshot symbol s = Some b \<longrightarrow>
            (if ack
             then fst (UnsubscribeTrades symbol s) = Return None \<and>
                  lookup TradesUpdate symbol (snd (UnsubscribeTrades symbol s)) = None \<and>
                  lookup TradesSnapshot symbol (snd (UnsubscribeTrades symbol s)) = None \<and>
                  receive (Some a) (snd (UnsubscribeTrades symbol s)) = NoMoreValues \<and>
                  receive (Some b) (snd (UnsubscribeTrades symbol s)) = NoMoreValues
             else UnsubscribeTrades symbol s =
                  (Return (Some (Annotate (New ''Subscribe not successful'')
                                   ''Hitbtc UnsubscribeTrades'')),
                   s\<lparr>events := events s @
                       [EvCall ''unsubscribeTrades'' (WSSubscriptionRequest symbol)]\<rparr>))"
    using ra [of TradesUpdate] rb [of TradesSnapshot]
    by (simp add: UnsubscribeTrades_def subscriptionOp_conn [OF assms(2)] pair torn_pair_facts)
  have t3: "respond cn ''unsubscribeOrderbook'' (WSSubscriptionRequest symbol) = CallResult ack \<and>
          lookup OrderbookUpdate symbol s = Some a \<and> lookup OrderbookSnapshot symbol s = Some b \<longrightarrow>
            (if ack
             then fst (UnsubscribeOrderbook symbol s) = Return None \<and>
                  lookup OrderbookUpdate symbol (snd (UnsubscribeOrderbook symbol s)) = None \<and>
                  lookup OrderbookSnapshot symbol (snd (UnsubscribeOrderbook symbol s)) = None \<and>
                  receive (Some a) (snd (UnsubscribeOrderbook symbol s)) = NoMoreValues \<and>
                  receive (Some b) (snd (UnsubscribeOrderbook symbol s)) = NoMoreValues
             else UnsubscribeOrderbook symbol s =
                  (Return (Some (Annotate (New ''Subscribe not successful'')
                                   ''Hitbtc UnsubscribeOrderbook'')),
                   s\<lparr>events := events s @
                       [EvCall ''unsubscribeOrderbook'' (WSSubscriptionRequest symbol)]\<rparr>))"
    using ra [of OrderbookUpdate] rb [of OrderbookSnapshot]
    by (simp add: UnsubscribeOrderbook_def subscriptionOp_conn [OF assms(2)] pair torn_pair_facts)
  have t4: "respond cn ''unsubscribeCandles'' (WSCandlesSubscriptionRequest symbol period)
            = CallResult ack \<and>
          lookup CandlesUpdate symbol s = Some a \<and> lookup CandlesSnapshot symbol s = Some b \<longrightarrow>
            fst (UnsubscribeCandles symbol period s) = Return None \<and>
            lookup CandlesUpdate symbol (snd (UnsubscribeCandles symbol period s)) = None \<and>
            lookup CandlesSnapshot symbol (snd (UnsubscribeCandles symbol period s)) = None \<and>
            receive (Some a) (snd (UnsubscribeCandles symbol period s)) = NoMoreValues \<and>
            receive (Some b) (snd (UnsubscribeCandles symbol period s)) = NoMoreValues"
    using ra [of CandlesUpdate] rb [of CandlesSnapshot]
    by (simp add: UnsubscribeCandles_def candlesSubscriptionOp_conn [OF assms(2)] pair
        torn_pair_facts)
  show ?thesis
    using t1 t2 t3 t4 by (intro conjI)
qed

theorem unsubscribe_after_ack_witness:
  "wf sticky_world \<and> wf busy_world \<and> wf deaf_world \<and>
   fst (UnsubscribeTicker ''ETHBTC'' sticky_world) =
     Return (Some (Annotate (New ''Subscribe not successful'') ''Hitbtc UnsubscribeTicker'')) \<and>
   fst (UnsubscribeTicker ''ETHBTC'' busy_world) = Return None \<and>
   receive (Some 1) (snd (UnsubscribeTicker ''ETHBTC'' busy_world)) = NoMoreValues \<and>
   fst (UnsubscribeTrades ''ETHBTC'' busy_world) = Return None \<and>
   receive (Some 2) (snd (UnsubscribeTrades ''ETHBTC'' busy_world)) = NoMoreValues \<and>
   receive (Some 3) (snd (UnsubscribeTrades ''ETHBTC'' busy_world)) = NoMoreValues \<and>
   fst (UnsubscribeCandles ''BTCUSD'' Interval1Hour deaf_world) = Return None \<and>
   lookup CandlesUpdate ''BTCUSD'' (snd (UnsubscribeCandles ''BTCUSD'' Interval1Hour deaf_world)) = None \<and>
   receive (Some 4) (snd (UnsubscribeCandles ''BTCUSD'' Interval1Hour deaf_world)) = NoMoreValues \<and>
   receive (Some 5) (snd (UnsubscribeCandles ''BTCUSD'' Interval1Hour deaf_world)) = NoMoreValues"
proof -
  have cs: "conn sticky_world = Some sticky_conn"
    and cb: "conn busy_world = Some (ack_conn True)"
    and cd: "conn deaf_world = Some (ack_conn False)"
    by (simp_all add: sticky_world_simp busy_world_simp deaf_world_def)
  show ?thesis
    using unsubscribe_after_ack [OF wf_sticky_world cs, of "''ETHBTC''" False 1 0 Interval1Hour]
      unsubscribe_after_ack [OF wf_busy_world cb, of "''ETHBTC''" True 1 0 Interval1Hour]
      unsubscribe_after_ack [OF wf_busy_world cb, of "''ETHBTC''" True 2 3 Interval1Hour]
      unsubscribe_after_ack [OF wf_deaf_world cd, of "''BTCUSD''" False 4 5 Interval1Hour]
      wf_sticky_world wf_busy_world wf_deaf_world
    by (simp add: sticky_world_simp sticky_conn_def busy_world_simp deaf_world_def ack_conn_def
        lookup_def)
qed

section \<open>Subscribe, then unsubscribe\<close>

text \<open>
  Claim C5. For each of the four topic kinds and every symbol, on a well-formed client with
  a connection: when the server acknowledges the subscribe and the unsubscribe that
  follows it at once (for candles: when both calls come back with an acknowledgment), the
  subscribe returns its channels without an error, the unsubscribe returns without an
  error, the feed maps of that kind have no entry for the symbol any more, and a receive
  on each channel the subscribe returned gets the no-more-values answer of a closed
  channel instead of waiting.
\<close>

theorem subscribe_then_unsubscribe:
  assumes "wf s" and "conn s = Some cn"
  shows "(respond cn ''subscribeTicker'' (WSSubscriptionRequest symbol) = CallResult True \<and>
          respond cn ''unsubscribeTicker'' (WSSubscriptionRequest symbol) = CallResult True \<longrightarrow>
            (\<exists>a. fst (SubscribeTicker symbol s) = Return (Inr (Some a)) \<and>
                 fst (UnsubscribeTicker symbol (snd (SubscribeTicker symbol s))) = Return None \<and>
                 lookup Ticker symbol
                   (snd (UnsubscribeTicker symbol (snd (SubscribeTicker symbol s)))) = None \<and>
                 receive (Some a)
                   (snd (UnsubscribeTicker symbol (snd (SubscribeTicker symbol s))))
                   = NoMoreValues)) \<and>
         (respond cn ''subscribeTrades'' (WSSubscriptionRequest symbol) = CallResult True \<and>
          respond cn ''unsubscribeTrades'' (WSSubscriptionRequest symbol) = CallResult True \<longrightarrow>
            (\<exists>a b. fst (SubscribeTrades symbol s) = Return (Inr (Some a, Some b)) \<and>
                 fst (UnsubscribeTrades symbol (snd (SubscribeTrades symbol s))) = Return None \<and>
                 lookup TradesUpdate symbol
                   (snd (UnsubscribeTrades symbol (snd (SubscribeTrades symbol s)))) = None \<and>
                 lookup TradesSnapshot symbol
                   (snd (UnsubscribeTrades symbol (snd (SubscribeTrades symbol s)))) = None \<and>
                 receive (Some a)
                   (snd (UnsubscribeTrades symbol (snd (SubscribeTrades symbol s))))
                   = NoMoreValues \<and>
                 receive (Some b)
                   (snd (UnsubscribeTrades symbol (snd (SubscribeTrades symbol s))))
                   = NoMoreValues)) \<and>
         (respond cn ''subscribeOrderbook'' (WSSubscriptionRequest symbol) = CallResult True \<and>
          respond cn ''unsubscribeOrderbook'' (WSSubscriptionRequest symbol) = CallResult True \<longrightarrow>
            (\<exists>a b. fst (SubscribeOrderbook symbol s) = Return (Inr (Some a, Some b)) \<and>
                 fst (UnsubscribeOrderbook symbol (snd (SubscribeOrderbook symbol s)))
                   = Return None \<and>
                 lookup OrderbookUpdate symbol
                   (snd (UnsubscribeOrderbook symbol (snd (SubscribeOrderbook symbol s)))) = None \<and>
                 lookup OrderbookSnapshot symbol
                   (snd (UnsubscribeOrderbook symbol (snd (SubscribeOrderbook symbol s)))) = None \<and>
                 receive (Some a)
                   (snd (UnsubscribeOrderbook symbol (snd (SubscribeOrderbook symbol s))))
                   = NoMoreValues \<and>
                 receive (Some b)
                   (snd (UnsubscribeOrderbook symbol (snd (SubscribeOrderbook symbol s))))
                   = NoMoreValues)) \<and>
         (respond cn ''subscribeCandles'' (WSCandlesSubscriptionRequest symbol period)
            = CallResult ack \<and>
          respond cn ''unsubscribeCandles'' (WSCandlesSubscriptionRequest symbol period)
            = CallResult ack' \<longrightarrow>
            (\<exists>a b. fst (SubscribeCandles symbol period s) = Return (Inr (Some a, Some b)) \<and>
                 fst (UnsubscribeCandles symbol period (snd (SubscribeCandles symbol period s)))
                   = Return None \<and>
                 lookup CandlesUpdate symbol
                   (snd (UnsubscribeCandles symbol period (snd (SubscribeCandles symbol period s))))
                   = None \<and>
                 lookup CandlesSnapshot symbol
                   (snd (UnsubscribeCandles symbol period (snd (SubscribeCandles symbol period s))))
                   = None \<and>
                 receive (Some a)
                   (snd (UnsubscribeCandles symbol period (snd (SubscribeCandles symbol period s))))
                   = NoMoreValues \<and>
                 receive (Some b)
                   (snd (UnsubscribeCandles symbol period (snd (SubscribeCandles symbol period s))))
                   = NoMoreValues))"
proof (intro conjI impI)
  assume r: "respond cn ''subscribeTicker'' (WSSubscriptionRequest symbol) = CallResult True \<and>
             respond cn ''unsubscribeTicker'' (WSSubscriptionRequest symbol) = CallResult True"
  define s1 where "s1 = snd (SubscribeTicker symbol s)"
  define s2 where "s2 = snd (UnsubscribeTicker symbol s1)"
  from subscribe_then_unsubscribe_succeeds(1) [OF assms, of symbol] r
  obtain a where S: "SubscribeTicker symbol s = (Return (Inr (Some a)), s1)"
    and U: "UnsubscribeTicker symbol s1 = (Return None, s2)"
    by (auto simp: s1_def s2_def prod_eq_iff)
  have "lookup Ticker symbol s2 = None \<and> receive (Some a) s2 = NoMoreValues"
    using returned_channels_closed [of symbol s "Some a" s1 s2] S U by simp
  then show "\<exists>a. fst (SubscribeTicker symbol s) = Return (Inr (Some a)) \<and>
                 fst (UnsubscribeTicker symbol (snd (SubscribeTicker symbol s))) = Return None \<and>
                 lookup Ticker symbol
                   (snd (UnsubscribeTicker symbol (snd (SubscribeTicker symbol s)))) = None \<and>
                 receive (Some a)
                   (snd (UnsubscribeTicker symbol (snd (SubscribeTicker symbol s))))
                   = NoMoreValues"
    using S U by (intro exI [of _ a]) (simp add: s1_def [symmetric] s2_def [symmetric])
next
  assume r: "respond cn ''subscribeTrades'' (WSSubscriptionRequest symbol) = CallResult True \<and>
             respond cn ''unsubscribeTrades'' (WSSubscriptionRequest symbol) = CallResult True"
  define s1 where "s1 = snd (SubscribeTrades symbol s)"
  define s2 where "s2 = snd (UnsubscribeTrades symbol s1)"
  from subscribe_then_unsubscribe_succeeds(2) [OF assms, of symbol] r
  obtain a b where S: "SubscribeTrades symbol s = (Return (Inr (Some a, Some b)), s1)"
    and U: "UnsubscribeTrades symbol s1 = (Return None, s2)"
    by (auto simp: s1_def s2_def prod_eq_iff)
  have "lookup TradesUpdate symbol s2 = None \<and> lookup TradesSnapshot symbol s2 = None \<and>
        receive (Some a) s2 = NoMoreValues \<and> receive (Some b) s2 = NoMoreValues"
    using returned_channels_closed [of symbol s _ s1 s2 "Some a" "Some b"] S U by simp
  then show "\<exists>a b. fst (SubscribeTrades symbol s) = Return (Inr (Some a, Some b)) \<and>
                 fst (UnsubscribeTrades symbol (snd (SubscribeTrades symbol s))) = Return None \<and>
                 lookup TradesUpdate symbol
                   (snd (UnsubscribeTrades symbol (snd (SubscribeTrades symbol s)))) = None \<and>
                 lookup TradesSnapshot symbol
                   (snd (UnsubscribeTrades symbol (snd (SubscribeTrades symbol s)))) = None \<and>
                 receive (Some a)
                   (snd (UnsubscribeTrades symbol (snd (SubscribeTrades symbol s))))
                   = NoMoreValues \<and>
                 receive (Some b)
                   (snd (UnsubscribeTrades symbol (snd (SubscribeTrades symbol s))))
                   = NoMoreValues"
    using S U by (intro exI [of _ a] exI [of _ b]) (simp add: s1_def [symmetric] s2_def [symmetric])
next
  assume r: "respond cn ''subscribeOrderbook'' (WSSubscriptionRequest symbol) = CallResult True \<and>
             respond cn ''unsubscribeOrderbook'' (WSSubscriptionRequest symbol) = CallResult True"
  define s1 where "s1 = snd (SubscribeOrderbook symbol s)"
  define s2 where "s2 = snd (UnsubscribeOrderbook symbol s1)"
  from subscribe_then_unsubscribe_succeeds(3) [OF assms, of symbol] r
  obtain a b where S: "SubscribeOrderbook symbol s = (Return (Inr (Some a, Some b)), s1)"
    and U: "UnsubscribeOrderbook symbol s1 = (Return None, s2)"
    by (auto simp: s1_def s2_def prod_eq_iff)
  have "lookup OrderbookUpdate symbol s2 = None \<and> lookup OrderbookSnapshot symbol s2 = None \<and>
        receive (Some a) s2 = NoMoreValues \<and> receive (Some b) s2 = NoMoreValues"
    using returned_channels_closed [of symbol s _ s1 s2 "Some a" "Some b"] S U by simp
  then show "\<exists>a b. fst (SubscribeOrderbook symbol s) = Return (Inr (Some a, Some b)) \<and>
                 fst (UnsubscribeOrderbook symbol (snd (SubscribeOrderbook symbol s)))
                   = Return None \<and>
                 lookup OrderbookUpdate symbol
                   (snd (UnsubscribeOrderbook symbol (snd (SubscribeOrderbook symbol s)))) = None \<and>
                 lookup OrderbookSnapshot symbol
                   (snd (UnsubscribeOrderbook symbol (snd (SubscribeOrderbook symbol s)))) = None \<and>
                 receive (Some a)
                   (snd (UnsubscribeOrderbook symbol (snd (SubscribeOrderbook symbol s))))
                   = NoMoreValues \<and>
                 receive (Some b)
                   (snd (UnsubscribeOrderbook symbol (snd (SubscribeOrderbook symbol s))))
                   = NoMoreValues"
    using S U by (intro exI [of _ a] exI [of _ b]) (simp add: s1_def [symmetric] s2_def [symmetric])
next
  assume r: "respond cn ''subscribeCandles'' (WSCandlesSubscriptionRequest symbol period)
               = CallResult ack \<and>
             respond cn ''unsubscribeCandles'' (WSCandlesSubscriptionRequest symbol period)
               = CallResult ack'"
  define s1 where "s1 = snd (SubscribeCandles symbol period s)"
  define s2 where "s2 = snd (UnsubscribeCandles symbol period s1)"
  from subscribe_then_unsubscribe_succeeds(4) [OF assms, of symbol period ack ack'] r
  obtain a b where S: "SubscribeCandles symbol period s = (Return (Inr (Some a, Some b)), s1)"
    and U: "UnsubscribeCandles symbol period s1 = (Return None, s2)"
    by (auto simp: s1_def s2_def prod_eq_iff)
  have "lookup CandlesUpdate symbol s2 = None \<and> lookup CandlesSnapshot symbol s2 = None \<and>
        receive (Some a) s2 = NoMoreValues \<and> receive (Some b) s2 = NoMoreValues"
    using returned_channels_closed [of symbol s _ s1 s2 "Some a" "Some b" period] S U by simp
  then show "\<exists>a b. fst (SubscribeCandles symbol period s) = Return (Inr (Some a, Some b)) \<and>
                 fst (UnsubscribeCandles symbol period (snd (SubscribeCandles symbol period s)))
                   = Return None \<and>
                 lookup CandlesUpdate symbol
                   (snd (UnsubscribeCandles symbol period (snd (SubscribeCandles symbol period s))))
                   = None \<and>
                 lookup CandlesSnapshot symbol
                   (snd (UnsubscribeCandles symbol period (snd (SubscribeCandles symbol period s))))
                   = None \<and>
                 receive (Some a)
                   (snd (UnsubscribeCandles symbol period (snd (SubscribeCandles symbol period s))))
                   = NoMoreValues \<and>
                 receive (Some b)
                   (snd (UnsubscribeCandles symbol period (snd (SubscribeCandles symbol period s))))
                   = NoMoreValues"
    using S U by (intro exI [of _ a] exI [of _ b]) (simp add: s1_def [symmetric] s2_def [symmetric])
qed

theorem subscribe_then_unsubscribe_witness:
  "wf ticker_world \<and> conn ticker_world = Some (ack_conn True) \<and>
   fst (SubscribeTicker ''BTCUSD'' ticker_world) = Return (Inr (Some 2)) \<and>
   fst (UnsubscribeTicker ''BTCUSD'' (snd (SubscribeTicker ''BTCUSD'' ticker_world)))
     = Return None \<and>
   lookup Ticker ''BTCUSD''
     (snd (UnsubscribeTicker ''BTCUSD'' (snd (SubscribeTicker ''BTCUSD'' ticker_world)))) = None \<and>
   receive (Some 2)
     (snd (UnsubscribeTicker ''BTCUSD'' (snd (SubscribeTicker ''BTCUSD'' ticker_world))))
     = NoMoreValues \<and>
   fst (SubscribeTrades ''BTCUSD'' ticker_world) = Return (Inr (Some 2, Some 3)) \<and>
   fst (UnsubscribeTrades ''BTCUSD'' (snd (SubscribeTrades ''BTCUSD'' ticker_world)))
     = Return None \<and>
   lookup TradesUpdate ''BTCUSD''
     (snd (UnsubscribeTrades ''BTCUSD'' (snd (SubscribeTrades ''BTCUSD'' ticker_world)))) = None \<and>
   lookup TradesSnapshot ''BTCUSD''
     (snd (UnsubscribeTrades ''BTCUSD'' (snd (SubscribeTrades ''BTCUSD'' ticker_world)))) = None \<and>
   receive (Some 2)
     (snd (UnsubscribeTrades ''BTCUSD'' (snd (SubscribeTrades ''BTCUSD'' ticker_world))))
     = NoMoreValues \<and>
   receive (Some 3)
     (snd (UnsubscribeTrades ''BTCUSD'' (snd (SubscribeTrades ''BTCUSD'' ticker_world))))
     = NoMoreValues \<and>
   fst (SubscribeOrderbook ''BTCUSD'' ticker_world) = Return (Inr (Some 2, Some 3)) \<and>
   fst (UnsubscribeOrderbook ''BTCUSD'' (snd (SubscribeOrderbook ''BTCUSD'' ticker_world)))
     = Return None \<and>
   lookup OrderbookUpdate ''BTCUSD''
     (snd (UnsubscribeOrderbook ''BTCUSD'' (snd (SubscribeOrderbook ''BTCUSD'' ticker_world))))
     = None \<and>
   lookup OrderbookSnapshot ''BTCUSD''
     (snd (UnsubscribeOrderbook ''BTCUSD'' (snd (SubscribeOrderbook ''BTCUSD'' ticker_world))))
     = None \<and>
   receive (Some 2)
     (snd (UnsubscribeOrderbook ''BTCUSD'' (snd (SubscribeOrderbook ''BTCUSD'' ticker_world))))
     = NoMoreValues \<and>
   receive (Some 3)
     (snd (UnsubscribeOrderbook ''BTCUSD'' (snd (SubscribeOrderbook ''BTCUSD'' ticker_world))))
     = NoMoreValues \<and>
   fst (SubscribeCandles ''BTCUSD'' Interval30Minutes ticker_world)
     = Return (Inr (Some 2, Some 3)) \<and>
   fst (UnsubscribeCandles ''BTCUSD'' Interval30Minutes
          (snd (SubscribeCandles ''BTCUSD'' Interval30Minutes ticker_world))) = Return None \<and>
   lookup CandlesUpdate ''BTCUSD''
     (snd (UnsubscribeCandles ''BTCUSD'' Interval30Minutes
          (snd (SubscribeCandles ''BTCUSD'' Interval30Minutes ticker_world)))) = None \<and>
   lookup CandlesSnapshot ''BTCUSD''
     (snd (UnsubscribeCandles ''BTCUSD'' Interval30Minutes
          (snd (SubscribeCandles ''BTCUSD'' Interval30Minutes ticker_world)))) = None \<and>
   receive (Some 2)
     (snd (UnsubscribeCandles ''BTCUSD'' Interval30Minutes
          (snd (SubscribeCandles ''BTCUSD'' Interval30Minutes ticker_world)))) = NoMoreValues \<and>
   receive (Some 3)
     (snd (UnsubscribeCandles ''BTCUSD'' Interval30Minutes
          (snd (SubscribeCandles ''BTCUSD'' Interval30Minutes ticker_world)))) = NoMoreValues"
proof -
  have c: "conn ticker_world = Some (ack_conn True)"
    by (simp add: ticker_world_simp)
  have a1: "fst (SubscribeTicker ''BTCUSD'' ticker_world) = Return (Inr (Some 2))"
    by (simp add: ticker_world_simp SubscribeTicker_def subscriptionOp_def Call_def ack_conn_def
        ensure_chan_def make_chan_def lookup_def)
  have a2: "fst (SubscribeTrades ''BTCUSD'' ticker_world) = Return (Inr (Some 2, Some 3))"
    by (simp add: ticker_world_simp SubscribeTrades_def subscriptionOp_def Call_def ack_conn_def
        ensure_chan_def make_chan_def lookup_def)
  have a3: "fst (SubscribeOrderbook ''BTCUSD'' ticker_world) = Return (Inr (Some 2, Some 3))"
    by (simp add: ticker_world_simp SubscribeOrderbook_def subscriptionOp_def Call_def ack_conn_def
        ensure_chan_def make_chan_def lookup_def)
  have a4: "fst (SubscribeCandles ''BTCUSD'' Interval30Minutes ticker_world)
              = Return (Inr (Some 2, Some 3))"
    by (simp add: ticker_world_simp SubscribeCandles_def candlesSubscriptionOp_def Call_def
        ack_conn_def ensure_chan_def make_chan_def lookup_def)
  have r: "respond (ack_conn True) op rq = CallResult True" for op rq
    by (simp add: ack_conn_def)
  show ?thesis
    using subscribe_then_unsubscribe [OF wf_ticker_world c, of "''BTCUSD''" Interval30Minutes
        True True] wf_ticker_world c
    by (simp add: r a1 a2 a3 a4)
qed

end
